theory Spec2Isabelle
  imports Main "HOL-Library.Char_ord" "HOL-Library.Multiset"
begin

text \<open>
  A shallow embedding of the query pipeline of the matrimonial search backend, and the
  properties of its specification that were checked against it.  The embedded code:
  \<^item> \<open>validateAndFixSql\<close> (\<open>src/services/sql-validator.service.ts\<close>, lines 22 to 163);
  \<^item> \<open>fallbackExtractIntent\<close>, \<open>INTENT_TO_SQL\<close>, \<open>normalizeIntentAttribute\<close>, \<open>getSqlPattern\<close>,
    \<open>INTENT_TABLES\<close>, \<open>selectColumnsForIntent\<close>, \<open>buildSqlFromIntent\<close> and the head of
    \<open>generateMatrimonialSQL\<close> (\<open>src/services/planner.service.ts\<close>, lines 122 to 293 of its copy
    under \<open>src/unnamed\<close>);
  \<^item> \<open>executeMatrimonialQuery\<close> (\<open>src/services/executor.service.ts\<close>);
  \<^item> the handlers of \<open>/api/execute\<close> and \<open>/api/ask\<close> (\<open>src/app.ts\<close>).
  The text model, the schema retrieval, the database and the rendering service are
  collaborators: the handlers are modelled for every behaviour of theirs.
\<close>

section \<open>Characters and strings of the source language\<close>

text \<open>
  The source is TypeScript; its strings are sequences of UTF-16 code units.  The model
  uses \<^typ>\<open>string\<close> (8-bit characters), read as the code units U+0000 to U+00FF.
  The source mentions exactly two characters outside that range, the en dash (in the age
  pattern) and the em dash (in the mapping table); they are represented by the otherwise
  unused codes 0x96 and 0x97, which like the dashes are neither white space nor word
  characters and have no case.
\<close>

definition enDash :: char where "enDash = CHR 0x96"
definition emDash :: char where "emDash = CHR 0x97"

text \<open>White space as \<open>\s\<close> and \<open>trim\<close> see it, restricted to the code units of the model.\<close>

definition isSpace :: "char \<Rightarrow> bool" where
  "isSpace c = (c \<in> set [CHR '' '', CHR 0x09, CHR 0x0A, CHR 0x0B, CHR 0x0C, CHR 0x0D, CHR 0xA0])"

definition isDigit :: "char \<Rightarrow> bool" where
  "isDigit c = (CHR ''0'' \<le> c \<and> c \<le> CHR ''9'')"

definition isUpper :: "char \<Rightarrow> bool" where
  "isUpper c = (CHR ''A'' \<le> c \<and> c \<le> CHR ''Z'')"

definition isLower :: "char \<Rightarrow> bool" where
  "isLower c = (CHR ''a'' \<le> c \<and> c \<le> CHR ''z'')"

definition isWord :: "char \<Rightarrow> bool" where
  "isWord c = (isUpper c \<or> isLower c \<or> isDigit c \<or> c = CHR ''_'')"

text \<open>A letter and its other case differ in bit 5 (value 32) only.\<close>

fun withBit5 :: "bool \<Rightarrow> char \<Rightarrow> char" where
  "withBit5 b (Char b0 b1 b2 b3 b4 b5 b6 b7) = Char b0 b1 b2 b3 b4 b b6 b7"

definition asciiLower :: "char \<Rightarrow> char" where
  "asciiLower c = (if isUpper c then withBit5 True c else c)"

definition asciiUpper :: "char \<Rightarrow> char" where
  "asciiUpper c = (if isLower c then withBit5 False c else c)"

text \<open>\<open>String.prototype.toLowerCase\<close> on the code units of the model: the ASCII letters
  and the Latin-1 capitals U+00C0 to U+00DE (U+00D7, the multiplication sign, has no case).\<close>

definition isLatinUpper :: "char \<Rightarrow> bool" where
  "isLatinUpper c = (CHR 0xC0 \<le> c \<and> c \<le> CHR 0xDE \<and> c \<noteq> CHR 0xD7)"

definition lowerChar :: "char \<Rightarrow> char" where
  "lowerChar c = (if isUpper c \<or> isLatinUpper c then withBit5 True c else c)"

text \<open>The same functions on the bits of a character (bit 0 first), for evaluation.\<close>

lemma isSpace_bits [code]:
  "isSpace (Char b0 b1 b2 b3 b4 b5 b6 b7) =
     (\<not> b6 \<and> \<not> b4 \<and> 
      ((b5 \<and> \<not> b3 \<and> \<not> b2 \<and> \<not> b1 \<and> \<not> b0) \<or>
       (\<not> b7 \<and> \<not> b5 \<and> b3 \<and> (b2 \<longrightarrow> \<not> b1) \<and> (\<not> b2 \<and> \<not> b1 \<longrightarrow> b0))))"
  unfolding isSpace_def by (cases b0; cases b1; cases b2; cases b3; cases b4; cases b5; cases b6; cases b7; simp)

lemma isDigit_bits [code]:
  "isDigit (Char b0 b1 b2 b3 b4 b5 b6 b7) =
     (\<not> b7 \<and> \<not> b6 \<and> b5 \<and> b4 \<and> (b3 \<longrightarrow> \<not> b2 \<and> \<not> b1))"
  unfolding isDigit_def by (cases b0; cases b1; cases b2; cases b3; cases b4; cases b5; cases b6; cases b7; simp)

lemma isUpper_bits [code]:
  "isUpper (Char b0 b1 b2 b3 b4 b5 b6 b7) =
     (\<not> b7 \<and> b6 \<and> \<not> b5 \<and> (b0 \<or> b1 \<or> b2 \<or> b3 \<or> b4) \<and>
      (b4 \<and> b3 \<longrightarrow> \<not> b2 \<and> \<not> (b1 \<and> b0)))"
  unfolding isUpper_def by (cases b0; cases b1; cases b2; cases b3; cases b4; cases b5; cases b6; cases b7; simp)

lemma isLower_bits [code]:
  "isLower (Char b0 b1 b2 b3 b4 b5 b6 b7) =
     (\<not> b7 \<and> b6 \<and> b5 \<and> (b0 \<or> b1 \<or> b2 \<or> b3 \<or> b4) \<and>
      (b4 \<and> b3 \<longrightarrow> \<not> b2 \<and> \<not> (b1 \<and> b0)))"
  unfolding isLower_def by (cases b0; cases b1; cases b2; cases b3; cases b4; cases b5; cases b6; cases b7; simp)

lemma isLatinUpper_bits [code]:
  "isLatinUpper (Char b0 b1 b2 b3 b4 b5 b6 b7) =
     (b7 \<and> b6 \<and> \<not> b5 \<and> \<not> (b4 \<and> \<not> b3 \<and> b2 \<and> b1 \<and> b0) \<and> \<not> (b4 \<and> b3 \<and> b2 \<and> b1 \<and> b0))"
  unfolding isLatinUpper_def by (cases b0; cases b1; cases b2; cases b3; cases b4; cases b5; cases b6; cases b7; simp)

lemma asciiLower_alphabet:
  "map asciiLower ''ABCDEFGHIJKLMNOPQRSTUVWXYZ[az09'' = ''abcdefghijklmnopqrstuvwxyz[az09''"
  by code_simp

lemma asciiUpper_alphabet:
  "map asciiUpper ''abcdefghijklmnopqrstuvwxyz{AZ09'' = ''ABCDEFGHIJKLMNOPQRSTUVWXYZ{AZ09''"
  by code_simp

lemma lowerChar_alphabet:
  "map lowerChar ''ABCDEFGHIJKLMNOPQRSTUVWXYZ[az09'' = ''abcdefghijklmnopqrstuvwxyz[az09''"
  "map lowerChar [CHR 0xC0, CHR 0xD6, CHR 0xD7, CHR 0xDE, CHR 0xDF] = [CHR 0xE0, CHR 0xF6, CHR 0xD7, CHR 0xFE, CHR 0xDF]"
  by code_simp+

definition toLowerCase :: "string \<Rightarrow> string" where
  "toLowerCase s = map lowerChar s"

definition trimStart :: "string \<Rightarrow> string" where
  "trimStart s = dropWhile isSpace s"

definition trimEnd :: "string \<Rightarrow> string" where
  "trimEnd s = rev (dropWhile isSpace (rev s))"

definition trim :: "string \<Rightarrow> string" where
  "trim s = trimEnd (trimStart s)"

fun startsWith :: "string \<Rightarrow> string \<Rightarrow> bool" where
  "startsWith s [] = True"
| "startsWith [] (p # ps) = False"
| "startsWith (c # cs) (p # ps) = (if c = p then startsWith cs ps else False)"

text \<open>\<open>s.includes(sub)\<close>.\<close>

fun includesStr :: "string \<Rightarrow> string \<Rightarrow> bool" where
  "includesStr [] sub = (sub = [])"
| "includesStr (c # cs) sub = (if startsWith (c # cs) sub then True else includesStr cs sub)"

text \<open>\<open>xs.join(sep)\<close>.\<close>

fun joinWith :: "string \<Rightarrow> string list \<Rightarrow> string" where
  "joinWith sep [] = []"
| "joinWith sep [x] = x"
| "joinWith sep (x # y # ys) = x @ sep @ joinWith sep (y # ys)"

section \<open>Regular expressions\<close>

text \<open>
  The source works on query text with regular expressions throughout.  They are
  modelled by a syntax tree and a backtracking matcher that follows the matching order of
  the language: alternatives left to right, greedy quantifiers longest first, lazy ones
  shortest first, an iteration of a \<open>*\<close>-like quantifier that consumes nothing is
  rejected, and the captures of a quantified group are reset at each iteration.
\<close>

datatype citem = CChar char | CSpace | CWord | CDigit | CLower | CUpper

fun inItem :: "citem \<Rightarrow> char \<Rightarrow> bool" where
  "inItem (CChar a) c = (a = c)"
| "inItem CSpace c = isSpace c"
| "inItem CWord c = isWord c"
| "inItem CDigit c = isDigit c"
| "inItem CLower c = isLower c"
| "inItem CUpper c = isUpper c"

definition inItems :: "citem list \<Rightarrow> char \<Rightarrow> bool" where
  "inItems items c = list_ex (\<lambda>it. inItem it c) items"

text \<open>Under the \<open>i\<close> flag a character belongs to a class when one of its case variants
  does; every pattern of the source has ASCII members only.\<close>

definition inClass :: "bool \<Rightarrow> citem list \<Rightarrow> char \<Rightarrow> bool" where
  "inClass ic items c =
     (if inItems items c then True
      else if ic then (if inItems items (asciiLower c) then True else inItems items (asciiUpper c))
      else False)"

datatype regex =
    Cls bool "citem list"
  | Seq regex regex
  | Alt regex regex
  | Rep bool nat "nat option" regex
  | Grp nat regex
  | Bol
  | Eol
  | WordB
  | Eps

type_synonym caps = "(nat \<times> string) list"

text \<open>Items of a continuation: a pattern still to match, the progress check that ends an
  iteration (with the position where the iteration began), and the end of a capturing group
  (with the position and the text where the group began).\<close>

datatype kont = KR regex | KChk nat regex | KClose nat nat string

fun groupsOf :: "regex \<Rightarrow> nat list" where
  "groupsOf (Seq a b) = groupsOf a @ groupsOf b"
| "groupsOf (Alt a b) = groupsOf a @ groupsOf b"
| "groupsOf (Rep g mn mx r) = groupsOf r"
| "groupsOf (Grp i r) = i # groupsOf r"
| "groupsOf r = []"

definition clearCaps :: "nat list \<Rightarrow> caps \<Rightarrow> caps" where
  "clearCaps gs cs = (if gs = [] then cs else filter (\<lambda>(i, s). i \<notin> set gs) cs)"

fun decr :: "nat option \<Rightarrow> nat option" where
  "decr None = None"
| "decr (Some n) = Some (n - 1)"

fun rweight :: "regex \<Rightarrow> nat" where
  "rweight (Seq a b) = rweight a + rweight b + 1"
| "rweight (Alt a b) = rweight a + rweight b + 1"
| "rweight (Rep g mn mx r) = (mn + 1) * (rweight r + 2)"
| "rweight (Grp i r) = rweight r + 2"
| "rweight r = 1"

fun kweight :: "nat \<Rightarrow> kont \<Rightarrow> nat" where
  "kweight n (KR r) = rweight r"
| "kweight n (KChk n0 r) = (if n0 < n then rweight r + 1 else 0)"
| "kweight n (KClose i n0 s) = 1"

definition wordBefore :: "char option \<Rightarrow> bool" where
  "wordBefore p = (case p of None \<Rightarrow> False | Some c \<Rightarrow> isWord c)"

definition wordAfter :: "string \<Rightarrow> bool" where
  "wordAfter s = (case s of [] \<Rightarrow> False | c # cs \<Rightarrow> isWord c)"

text \<open>
  A frame is one state of the matcher: the continuation, the character before the current
  position (for \<open>\b\<close> and \<open>^\<close>), the unread text, the number of characters read since the
  match began, and the captures.  \<open>exec ic (f # bt)\<close> runs frame \<open>f\<close>; when it fails the
  matcher backtracks to the frames \<open>bt\<close>, most recent choice first.  \<open>ic\<close> is the \<open>i\<close> flag.
\<close>

type_synonym frame = "kont list \<times> char option \<times> string \<times> nat \<times> caps"

fun fmeasure :: "frame \<Rightarrow> nat \<times> nat" where
  "fmeasure (k, prev, rest, pos, cs) = (length rest, sum_list (map (kweight pos) k))"

definition framesMeasure :: "frame list \<Rightarrow> (nat \<times> nat) multiset" where
  "framesMeasure fs = mset (map fmeasure fs)"

function (sequential) exec :: "bool \<Rightarrow> frame list \<Rightarrow> (string \<times> nat \<times> caps) option" where
  "exec ic [] = None"
| "exec ic (([], prev, rest, pos, cs) # bt) = Some (rest, pos, cs)"
| "exec ic ((KR (Cls neg items) # k, prev, [], pos, cs) # bt) = exec ic bt"
| "exec ic ((KR (Cls neg items) # k, prev, c # s, pos, cs) # bt) =
     (if inClass ic items c \<noteq> neg then exec ic ((k, Some c, s, Suc pos, cs) # bt) else exec ic bt)"
| "exec ic ((KR (Seq a b) # k, prev, rest, pos, cs) # bt) =
     exec ic ((KR a # KR b # k, prev, rest, pos, cs) # bt)"
| "exec ic ((KR (Alt a b) # k, prev, rest, pos, cs) # bt) =
     exec ic ((KR a # k, prev, rest, pos, cs) # (KR b # k, prev, rest, pos, cs) # bt)"
| "exec ic ((KR (Rep g mn mx r) # k, prev, rest, pos, cs) # bt) =
     (if mx = Some 0 then exec ic ((k, prev, rest, pos, cs) # bt)
      else if 0 < mn then
        exec ic ((KR r # KR (Rep g (mn - 1) (decr mx) r) # k, prev, rest, pos, clearCaps (groupsOf r) cs) # bt)
      else if g then
        exec ic ((KR r # KChk pos (Rep g 0 (decr mx) r) # k, prev, rest, pos, clearCaps (groupsOf r) cs)
                 # (k, prev, rest, pos, cs) # bt)
      else
        exec ic ((k, prev, rest, pos, cs)
                 # (KR r # KChk pos (Rep g 0 (decr mx) r) # k, prev, rest, pos, clearCaps (groupsOf r) cs) # bt))"
| "exec ic ((KR (Grp i r) # k, prev, rest, pos, cs) # bt) =
     exec ic ((KR r # KClose i pos rest # k, prev, rest, pos, cs) # bt)"
| "exec ic ((KR Bol # k, prev, rest, pos, cs) # bt) =
     (if prev = None then exec ic ((k, prev, rest, pos, cs) # bt) else exec ic bt)"
| "exec ic ((KR Eol # k, prev, rest, pos, cs) # bt) =
     (if rest = [] then exec ic ((k, prev, rest, pos, cs) # bt) else exec ic bt)"
| "exec ic ((KR WordB # k, prev, rest, pos, cs) # bt) =
     (if wordBefore prev \<noteq> wordAfter rest then exec ic ((k, prev, rest, pos, cs) # bt) else exec ic bt)"
| "exec ic ((KR Eps # k, prev, rest, pos, cs) # bt) = exec ic ((k, prev, rest, pos, cs) # bt)"
| "exec ic ((KChk p0 r # k, prev, rest, pos, cs) # bt) =
     (if p0 < pos then exec ic ((KR r # k, prev, rest, pos, cs) # bt) else exec ic bt)"
| "exec ic ((KClose i p0 s0 # k, prev, rest, pos, cs) # bt) =
     exec ic ((k, prev, rest, pos, (i, take (pos - p0) s0) # cs) # bt)"
  by pat_completeness auto
termination
proof -
  let ?R = "less_than <*lex*> less_than :: ((nat \<times> nat) \<times> (nat \<times> nat)) set"
  have drop: "(framesMeasure bt, framesMeasure (f # bt)) \<in> mult ?R" for f bt
    unfolding framesMeasure_def by (rule subset_implies_mult) simp
  have one: "(framesMeasure (g # bt), framesMeasure (f # bt)) \<in> mult ?R"
    if "(fmeasure g, fmeasure f) \<in> ?R" for f g bt
    using one_step_implies_mult [of "{#fmeasure f#}" "{#fmeasure g#}" ?R "mset (map fmeasure bt)"] that
    by (simp add: framesMeasure_def)
  have two: "(framesMeasure (g # h # bt), framesMeasure (f # bt)) \<in> mult ?R"
    if "(fmeasure g, fmeasure f) \<in> ?R" "(fmeasure h, fmeasure f) \<in> ?R" for f g h bt
    using one_step_implies_mult [of "{#fmeasure f#}" "{#fmeasure g, fmeasure h#}" ?R "mset (map fmeasure bt)"] that
    by (simp add: framesMeasure_def)
  have wfR: "wf (inv_image (mult ?R) (\<lambda>(ic, fs). framesMeasure fs))"
    by (intro wf_inv_image wf_mult wf_lex_prod wf_less_than)
  have rep: "rweight r + (mn - Suc 0 + 1) * (rweight r + 2) < (mn + 1) * (rweight r + 2)"
    if "0 < mn" for r mn
  proof -
    from that obtain m where "mn = Suc m" by (cases mn) auto
    then show ?thesis by simp
  qed
  show ?thesis
    by (relation "inv_image (mult ?R) (\<lambda>(ic, fs). framesMeasure fs)")
       (simp_all add: wfR drop one two rep)
qed

subsection \<open>Searching, testing and replacing\<close>

text \<open>A match attempt at one position of the subject.\<close>

definition matchAt :: "bool \<Rightarrow> regex \<Rightarrow> char option \<Rightarrow> string \<Rightarrow> (string \<times> nat \<times> caps) option" where
  "matchAt ic r prev s = exec ic [([KR r], prev, s, 0, [])]"

text \<open>The result of a successful search: the text before the match, the match, the
  captures and the text after the match.\<close>

record minfo =
  mBefore :: string
  mText :: string
  mCaps :: caps
  mAfter :: string

definition mkInfo :: "string \<Rightarrow> string \<Rightarrow> nat \<Rightarrow> caps \<Rightarrow> minfo" where
  "mkInfo acc s n cs = \<lparr>mBefore = rev acc, mText = take n s, mCaps = cs, mAfter = drop n s\<rparr>"

text \<open>Leftmost match at or after the current position.  \<open>acc\<close> is the text already passed,
  reversed; the last argument is the result of the attempt at the current position.\<close>

fun searchFrom :: "bool \<Rightarrow> regex \<Rightarrow> string \<Rightarrow> string \<Rightarrow> (string \<times> nat \<times> caps) option \<Rightarrow> minfo option" where
  "searchFrom ic r acc s (Some (rest', n, cs)) = Some (mkInfo acc s n cs)"
| "searchFrom ic r acc [] None = None"
| "searchFrom ic r acc (c # s) None = searchFrom ic r (c # acc) s (matchAt ic r (Some c) s)"

text \<open>\<open>s.match(re)\<close> for a pattern without the \<open>g\<close> flag, and \<open>re.test(s)\<close>.\<close>

definition matchRe :: "bool \<Rightarrow> regex \<Rightarrow> string \<Rightarrow> minfo option" where
  "matchRe ic r s = searchFrom ic r [] s (matchAt ic r None s)"

definition test :: "bool \<Rightarrow> regex \<Rightarrow> string \<Rightarrow> bool" where
  "test ic r s = (matchRe ic r s \<noteq> None)"

text \<open>Capture \<open>i\<close> of a match; \<open>None\<close> is \<open>undefined\<close> (the group took no part).\<close>

definition grp :: "minfo \<Rightarrow> nat \<Rightarrow> string option" where
  "grp m i = map_of (mCaps m) i"

text \<open>\<open>s.replace(re, f)\<close> without the \<open>g\<close> flag: the first match is replaced by what the
  callback returns.\<close>

definition replaceFirst :: "bool \<Rightarrow> regex \<Rightarrow> (minfo \<Rightarrow> string) \<Rightarrow> string \<Rightarrow> string" where
  "replaceFirst ic r f s =
     (case matchRe ic r s of
        None \<Rightarrow> s
      | Some m \<Rightarrow> mBefore m @ f m @ mAfter m)"

text \<open>
  \<open>s.replace(re, f)\<close> with the \<open>g\<close> flag.  The callback also receives the number of
  matches replaced so far (the source keeps such a counter in a closure); the result carries
  the counter's final value.  \<open>out\<close> is the result so far, reversed; after an empty match
  the scan moves on by one character.
\<close>

fun replaceScan :: "bool \<Rightarrow> regex \<Rightarrow> (nat \<Rightarrow> minfo \<Rightarrow> string) \<Rightarrow> nat \<Rightarrow> string \<Rightarrow> string \<Rightarrow> string \<Rightarrow> (string \<times> nat \<times> caps) option \<Rightarrow> string \<times> nat" where
  "replaceScan ic r f i acc out [] None = (rev out, i)"
| "replaceScan ic r f i acc out (c # s) None =
     replaceScan ic r f i (c # acc) (c # out) s (matchAt ic r (Some c) s)"
| "replaceScan ic r f i acc out [] (Some (rest', n, cs)) =
     (rev out @ f i (mkInfo acc [] 0 cs), Suc i)"
| "replaceScan ic r f i acc out (c # s) (Some (rest', n, cs)) =
     (if n = 0 then
        replaceScan ic r f (Suc i) (c # acc) (c # rev (f i (mkInfo acc (c # s) 0 cs)) @ out) s
          (matchAt ic r (Some c) s)
      else
        replaceScan ic r f (Suc i) (rev (take n (c # s)) @ acc) (rev (f i (mkInfo acc (c # s) n cs)) @ out)
          (drop n (c # s)) (matchAt ic r (Some ((c # s) ! (n - 1))) (drop n (c # s))))"

definition replaceAllCount :: "bool \<Rightarrow> regex \<Rightarrow> (nat \<Rightarrow> minfo \<Rightarrow> string) \<Rightarrow> nat \<Rightarrow> string \<Rightarrow> string \<times> nat" where
  "replaceAllCount ic r f i s = replaceScan ic r f i [] [] s (matchAt ic r None s)"

definition replaceAll :: "bool \<Rightarrow> regex \<Rightarrow> (minfo \<Rightarrow> string) \<Rightarrow> string \<Rightarrow> string" where
  "replaceAll ic r f s = fst (replaceAllCount ic r (\<lambda>i. f) 0 s)"

text \<open>
  A replacement given as a string is expanded at each match: \<open>$$\<close> is a dollar sign,
  \<open>$&\<close> the match, \<open>$`\<close> and \<open>$'\<close> the text before and after it, \<open>$n\<close> and \<open>$nn\<close>
  capture \<open>n\<close> when the pattern has that many groups (\<open>ng\<close>); any other \<open>$\<close> stands for
  itself.
\<close>

definition digitVal :: "char \<Rightarrow> nat" where
  "digitVal c = of_char c - of_char (CHR ''0'')"

definition capText :: "minfo \<Rightarrow> nat \<Rightarrow> string" where
  "capText m i = (case grp m i of None \<Rightarrow> [] | Some t \<Rightarrow> t)"

definition validGroup :: "nat \<Rightarrow> nat \<Rightarrow> bool" where
  "validGroup ng i = (1 \<le> i \<and> i \<le> ng)"

fun expand :: "nat \<Rightarrow> minfo \<Rightarrow> string \<Rightarrow> string" where
  "expand ng m [] = []"
| "expand ng m [c] = [c]"
| "expand ng m [c, d] =
     (if c \<noteq> CHR ''$'' then c # expand ng m [d]
      else if d = CHR ''$'' then [CHR ''$'']
      else if d = CHR ''&'' then mText m
      else if d = CHR 0x60 then mBefore m
      else if d = CHR 0x27 then mAfter m
      else if isDigit d \<and> validGroup ng (digitVal d) then capText m (digitVal d)
      else c # expand ng m [d])"
| "expand ng m (c # d # e # s) =
     (if c \<noteq> CHR ''$'' then c # expand ng m (d # e # s)
      else if d = CHR ''$'' then CHR ''$'' # expand ng m (e # s)
      else if d = CHR ''&'' then mText m @ expand ng m (e # s)
      else if d = CHR 0x60 then mBefore m @ expand ng m (e # s)
      else if d = CHR 0x27 then mAfter m @ expand ng m (e # s)
      else if isDigit d \<and> isDigit e \<and> validGroup ng (10 * digitVal d + digitVal e)
        then capText m (10 * digitVal d + digitVal e) @ expand ng m s
      else if isDigit d \<and> validGroup ng (digitVal d) then capText m (digitVal d) @ expand ng m (e # s)
      else c # expand ng m (d # e # s))"

text \<open>\<open>s.replace(re, str)\<close> without and with the \<open>g\<close> flag.\<close>

definition replaceFirstStr :: "bool \<Rightarrow> regex \<Rightarrow> string \<Rightarrow> string \<Rightarrow> string" where
  "replaceFirstStr ic r rep s = replaceFirst ic r (\<lambda>m. expand (length (groupsOf r)) m rep) s"

definition replaceAllStr :: "bool \<Rightarrow> regex \<Rightarrow> string \<Rightarrow> string \<Rightarrow> string" where
  "replaceAllStr ic r rep s = replaceAll ic r (\<lambda>m. expand (length (groupsOf r)) m rep) s"

text \<open>\<open>s.split(re)[0]\<close> for a pattern that cannot match the empty string: the text before
  the first match, or all of \<open>s\<close>.\<close>

definition splitHead :: "bool \<Rightarrow> regex \<Rightarrow> string \<Rightarrow> string" where
  "splitHead ic r s = (case matchRe ic r s of None \<Rightarrow> s | Some m \<Rightarrow> mBefore m)"

subsection \<open>Writing patterns\<close>

definition lit :: "char \<Rightarrow> regex" where "lit c = Cls False [CChar c]"

fun str :: "string \<Rightarrow> regex" where
  "str [] = Eps"
| "str [c] = lit c"
| "str (c # d # s) = Seq (lit c) (str (d # s))"

fun seqs :: "regex list \<Rightarrow> regex" where
  "seqs [] = Eps"
| "seqs [r] = r"
| "seqs (r # q # rs) = Seq r (seqs (q # rs))"

fun alts :: "regex list \<Rightarrow> regex" where
  "alts [] = Eps"
| "alts [r] = r"
| "alts (r # q # rs) = Alt r (alts (q # rs))"

definition star :: "regex \<Rightarrow> regex" where "star r = Rep True 0 None r"
definition plus :: "regex \<Rightarrow> regex" where "plus r = Rep True 1 None r"
definition opt :: "regex \<Rightarrow> regex" where "opt r = Rep True 0 (Some 1) r"
definition lazyRange :: "nat \<Rightarrow> nat \<Rightarrow> regex \<Rightarrow> regex" where
  "lazyRange lo hi r = Rep False lo (Some hi) r"

definition sp :: regex where "sp = Cls False [CSpace]"
definition dg :: regex where "dg = Cls False [CDigit]"
definition wd :: regex where "wd = Cls False [CWord]"
definition sps :: regex where "sps = plus sp"
definition sp0 :: regex where "sp0 = star sp"

definition apos :: string where "apos = [CHR 0x27]"

definition notIn :: "string \<Rightarrow> regex" where
  "notIn cs = Cls True (map CChar cs)"

subsection \<open>Patterns that are a literal text\<close>

text \<open>
  Replacing the occurrences of a literal text needs no matcher: the text is scanned from
  left to right, and where the token stands it is replaced and the scan goes on after it.
  \<open>substituteTokens ic tok g i s\<close> replaces the occurrences of \<open>tok\<close> in \<open>s\<close>, the first by
  \<open>g i\<close>, the next by \<open>g (i + 1)\<close> and so on, and returns the counter with the text.  With
  \<open>ic\<close> the case of the ASCII letters is ignored.
\<close>

definition sameChar :: "bool \<Rightarrow> char \<Rightarrow> char \<Rightarrow> bool" where
  "sameChar ic a c = (a = c \<or> (ic \<and> (asciiLower c = a \<or> asciiUpper c = a)))"

fun tokenAt :: "bool \<Rightarrow> string \<Rightarrow> string \<Rightarrow> bool" where
  "tokenAt ic [] s = True"
| "tokenAt ic (a # tok) [] = False"
| "tokenAt ic (a # tok) (c # s) = (if sameChar ic a c then tokenAt ic tok s else False)"

lemma tokenAt_length: "tokenAt ic tok s \<Longrightarrow> length tok \<le> length s"
  by (induction ic tok s rule: tokenAt.induct) (auto split: if_splits)










section \<open>The intent list\<close>

text \<open>\<open>ExtractedIntent\<close> of \<open>planner.service.ts\<close>.\<close>

record intent =
  attribute :: string
  val :: string

definition mk :: "string \<Rightarrow> string \<Rightarrow> intent" where
  "mk a v = \<lparr>attribute = a, val = v\<rparr>"

text \<open>\<open>v.replace(/'/g, "''")\<close>: every single quote is doubled.\<close>

definition escapeQuotes :: "string \<Rightarrow> string" where
  "escapeQuotes v = replaceAllStr False (lit (CHR 0x27)) (apos @ apos) v"

section \<open>The validator: \<open>sql-validator.service.ts\<close>\<close>

record validationResult =
  valid :: bool
  sql :: string
  error :: "string option"
  fixed :: "bool option"

subsection \<open>The patterns of \<open>validateAndFixSql\<close>, in the order of the source\<close>

definition reFromCareer :: regex where
  "reFromCareer = seqs [WordB, str ''FROM'', sps, str ''career_details'', sps, str ''c'', WordB]"

definition reFromProfilesP :: regex where
  "reFromProfilesP = seqs [WordB, str ''FROM'', sps, str ''profiles'', sps, str ''p'', WordB]"

definition reFromLocations :: regex where
  "reFromLocations = seqs [WordB, str ''FROM'', sps, str ''profile_locations'', sps, str ''pl'', WordB]"

definition reFromProfiles :: regex where
  "reFromProfiles = seqs [WordB, str ''FROM'', sps, str ''profiles'', WordB]"

definition reFromProfilesAliasNl :: regex where
  "reFromProfilesAliasNl =
     seqs [WordB, str ''FROM'', sps, str ''profiles'', sps, plus wd, sp0, lit (CHR 0x0A)]"

definition reFromProfilesBare :: regex where
  "reFromProfilesBare =
     seqs [WordB, str ''FROM'', sps, str ''profiles'', sp0,
           Grp 1 (alts [lit (CHR 0x0A), str ''LEFT'', str ''JOIN'', Eol])]"

definition reFromProfilesHead :: regex where
  "reFromProfilesHead = seqs [str ''FROM'', sps, str ''profiles'', sp0]"

definition reLikeTail :: "regex list" where
  "reLikeTail =
     [sps, str ''LIKE'', sps, str ''LOWER'', sp0, lit (CHR ''(''), sp0, str (apos @ ''%''),
      plus (notIn (''%'' @ apos)), str (''%'' @ apos), sp0, lit (CHR '')'')]"

definition reCityLike :: regex where
  "reCityLike = seqs (Grp 1 (Alt (str ''pl.city'') (str ''pl.state'')) # reLikeTail)"

definition reProfessionLike :: regex where
  "reProfessionLike = seqs (str ''c.profession'' # reLikeTail)"

definition reLowerProfessionLike :: regex where
  "reLowerProfessionLike =
     seqs ([str ''LOWER'', sp0, lit (CHR ''(''), sp0, str ''c.profession'', sp0, lit (CHR '')'')] @ reLikeTail)"

definition reQuotedPctValue :: regex where
  "reQuotedPctValue = str (apos @ ''%value%'' @ apos)"

definition rePctValue :: regex where
  "rePctValue = str ''%value%''"

definition reQuotedValue :: regex where
  "reQuotedValue = str (apos @ ''value'' @ apos)"

definition reLimitAtEnd :: regex where
  "reLimitAtEnd = seqs [WordB, str ''LIMIT'', sps, plus dg, sp0, opt (lit (CHR '';'')), sp0, Eol]"

definition reTwoParensAtEnd :: regex where
  "reTwoParensAtEnd = seqs [lit (CHR '')''), sp0, lit (CHR '')''), sp0, Eol]"

definition reCondTwoParensAtEnd :: regex where
  "reCondTwoParensAtEnd =
     seqs [WordB, Grp 1 (Alt (str ''AND'') (str ''OR'')), sps, plus (notIn '')''),
           lit (CHR '')''), sp0, lit (CHR '')''), sp0, Eol]"

definition reSemicolonLimit :: regex where
  "reSemicolonLimit = seqs [lit (CHR '';''), sp0, str ''LIMIT'', sps, plus dg]"

definition reSemicolonLimitGrp :: regex where
  "reSemicolonLimitGrp = seqs [lit (CHR '';''), sp0, Grp 1 (seqs [str ''LIMIT'', sps, plus dg])]"

definition rePlaceholder :: regex where
  "rePlaceholder = Alt (str ''%value%'') (str (apos @ ''value'' @ apos))"

definition reWhere :: regex where
  "reWhere = seqs [WordB, str ''WHERE'', WordB]"

definition reFirstNameCol :: regex where
  "reFirstNameCol = seqs [WordB, str ''p.first_name'', WordB]"

definition reLastNameCol :: regex where
  "reLastNameCol = seqs [WordB, str ''p.last_name'', WordB]"

definition reLimitTail :: regex where
  "reLimitTail = seqs [sps, str ''LIMIT'', sps, Grp 1 (plus dg), sp0, Eol]"

definition reDateOfBirth :: regex where
  "reDateOfBirth = seqs [WordB, str ''date_of_birth'', WordB]"

definition reAgeCall :: regex where
  "reAgeCall = seqs [WordB, str ''AGE'', sp0, lit (CHR ''('')]"

definition reExtractYear :: regex where
  "reExtractYear = seqs [WordB, str ''EXTRACT'', sp0, lit (CHR ''(''), sp0, str ''YEAR'']"

definition reAgeRange :: regex where
  "reAgeRange = seqs [Grp 1 (plus dg), sp0, Cls False [CChar (CHR ''-''), CChar enDash], sp0, Grp 2 (plus dg)]"

definition reUhDot :: regex where
  "reUhDot = seqs [WordB, str ''uh.'']"

definition reJoinHoroscopes :: regex where
  "reJoinHoroscopes = seqs [WordB, str ''JOIN'', sps, str ''user_horoscopes'', sps, str ''uh'', WordB]"

definition reFDot :: regex where
  "reFDot = seqs [WordB, str ''f.'']"

definition reJoinFamilyOrigin :: regex where
  "reJoinFamilyOrigin = seqs [WordB, str ''JOIN'', sps, str ''family_origin'', sps, str ''f'', WordB]"

subsection \<open>The auto-fix steps\<close>

text \<open>The query text under repair and the list \<open>fixes\<close> of the source.\<close>

type_synonym vstate = "string \<times> string list"

text \<open>1) Ensure \<open>FROM profiles p\<close>: a query based on \<open>career_details c\<close> or
  \<open>profile_locations pl\<close> is rebased, and a bare \<open>FROM profiles\<close> gets the alias (the
  last rewrite records no fix).\<close>

definition rebaseCareer :: "vstate \<Rightarrow> vstate" where
  "rebaseCareer st =
     (case st of (s, fixes) \<Rightarrow>
        if test True reFromCareer s \<and> \<not> test True reFromProfilesP s
        then (replaceFirstStr True reFromCareer
                ''FROM profiles p\<newline>LEFT JOIN career_details c ON p.profile_id = c.profile_id'' s,
              fixes @ [''base table set to profiles p''])
        else (s, fixes))"

definition rebaseLocations :: "vstate \<Rightarrow> vstate" where
  "rebaseLocations st =
     (case st of (s, fixes) \<Rightarrow>
        if test True reFromLocations s \<and> \<not> test True reFromProfilesP s
        then (replaceFirstStr True reFromLocations
                ''FROM profiles p\<newline>LEFT JOIN profile_locations pl ON p.profile_id = pl.profile_id'' s,
              fixes @ [''base table set to profiles p''])
        else (s, fixes))"

definition needsAlias :: "string \<Rightarrow> bool" where
  "needsAlias s =
     (test True reFromProfiles s \<and> \<not> test True reFromProfilesAliasNl s \<and> \<not> test True reFromProfilesP s)"

definition addAlias :: "vstate \<Rightarrow> vstate" where
  "addAlias st =
     (case st of (s, fixes) \<Rightarrow>
        if needsAlias s
        then (replaceFirst True reFromProfilesBare
                (\<lambda>m. if test True reFromProfilesP s then mText m
                     else replaceFirstStr True reFromProfilesHead ''FROM profiles p '' (mText m)) s,
              fixes)
        else (s, fixes))"

text \<open>2) Substitute intent values.  \<open>byAttr\<close> maps a lower-cased attribute to the escaped
  value of the last intent that has it; a missing or empty entry is falsy.\<close>

definition byAttr :: "intent list \<Rightarrow> string \<Rightarrow> string option" where
  "byAttr xs a =
     (case filter (\<lambda>i. toLowerCase (attribute i) = a) (rev xs) of
        [] \<Rightarrow> None
      | i # rest \<Rightarrow> Some (escapeQuotes (val i)))"

definition truthy :: "string option \<Rightarrow> bool" where
  "truthy v = (case v of None \<Rightarrow> False | Some t \<Rightarrow> t \<noteq> [])"

definition likeLower :: "string \<Rightarrow> string \<Rightarrow> string" where
  "likeLower col v = col @ '' LIKE LOWER('%'' @ v @ ''%')''"

definition alignCity :: "intent list \<Rightarrow> vstate \<Rightarrow> vstate" where
  "alignCity xs st =
     (case st of (s, fixes) \<Rightarrow>
        if truthy (byAttr xs ''city'') then
          (let s' = replaceAll True reCityLike (\<lambda>m. likeLower (capText m 1) (the (byAttr xs ''city''))) s
           in (s', if s' \<noteq> s then fixes @ [''aligned city with intent''] else fixes))
        else (s, fixes))"

definition alignProfession :: "intent list \<Rightarrow> vstate \<Rightarrow> vstate" where
  "alignProfession xs st =
     (case st of (s, fixes) \<Rightarrow>
        if truthy (byAttr xs ''profession'') then
          (let pro = the (byAttr xs ''profession'');
               s1 = replaceAll True reProfessionLike (\<lambda>m. likeLower ''c.profession'' pro) s;
               s2 = replaceAll True reLowerProfessionLike (\<lambda>m. likeLower ''LOWER(c.profession)'' pro) s1
           in (s2, if s2 \<noteq> s then fixes @ [''aligned profession with intent''] else fixes))
        else (s, fixes))"

text \<open>\<open>values[idx % values.length]\<close>.\<close>

definition pick :: "string list \<Rightarrow> nat \<Rightarrow> string" where
  "pick vs i = vs ! (i mod length vs)"

definition hasPlaceholderText :: "string \<Rightarrow> bool" where
  "hasPlaceholderText s = (includesStr s ''%value%'' \<or> includesStr s (apos @ ''value'' @ apos))"

text \<open>The three passes of the source: quoted \<open>%value%\<close> with the counter from 0; then, with
  the counter set back to 0, bare \<open>%value%\<close> and, the counter running on, quoted \<open>value\<close>.\<close>

definition substitutePlaceholders :: "intent list \<Rightarrow> vstate \<Rightarrow> vstate" where
  "substitutePlaceholders xs st =
     (case st of (s, fixes) \<Rightarrow>
        let vs = map (\<lambda>i. escapeQuotes (val i)) xs in
        if vs \<noteq> [] \<and> hasPlaceholderText s then
          (let s1 = fst (replaceAllCount True reQuotedPctValue
                           (\<lambda>i m. apos @ ''%'' @ pick vs i @ ''%'' @ apos) 0 s);
               r2 = replaceAllCount True rePctValue (\<lambda>i m. ''%'' @ pick vs i @ ''%'') 0 s1;
               s3 = fst (replaceAllCount False reQuotedValue (\<lambda>i m. apos @ pick vs i @ apos) (snd r2) (fst r2))
           in (s3, fixes @ [''substituted intent values for placeholders'']))
        else (s, fixes))"

text \<open>3) Remove one closing parenthesis of two before a final \<open>LIMIT\<close>.\<close>

definition removeExtraParen :: "vstate \<Rightarrow> vstate" where
  "removeExtraParen st =
     (case st of (s, fixes) \<Rightarrow>
        (case matchRe True reLimitAtEnd s of
           None \<Rightarrow> (s, fixes)
         | Some lm \<Rightarrow>
             (let beforeLimit = take (length s - length (mText lm)) s;
                  trimmed = trimEnd beforeLimit
              in if test False reTwoParensAtEnd trimmed then
                   (replaceFirstStr False reTwoParensAtEnd '') '' trimmed @ mText lm,
                    fixes @ [''removed extra parenthesis before LIMIT''])
                 else if test False reCondTwoParensAtEnd trimmed then
                   (replaceFirstStr False reTwoParensAtEnd '') '' trimmed @ mText lm,
                    fixes @ [''removed extra parenthesis before LIMIT''])
                 else (s, fixes))))"

text \<open>4) Remove a semicolon before \<open>LIMIT\<close>.\<close>

definition removeSemicolon :: "vstate \<Rightarrow> vstate" where
  "removeSemicolon st =
     (case st of (s, fixes) \<Rightarrow>
        if test True reSemicolonLimit s
        then (replaceFirstStr True reSemicolonLimitGrp '' $1'' s, fixes @ [''removed semicolon before LIMIT''])
        else (s, fixes))"

definition autoFix :: "intent list \<Rightarrow> string \<Rightarrow> vstate" where
  "autoFix xs s0 =
     removeSemicolon (removeExtraParen (substitutePlaceholders xs (alignProfession xs (alignCity xs
       (addAlias (rebaseLocations (rebaseCareer (s0, []))))))))"

subsection \<open>The checks\<close>

definition errFromProfiles :: string where
  "errFromProfiles = ''Query must start from FROM profiles p.''"

definition errPlaceholder :: string where
  "errPlaceholder = ''SQL still contains literal '%value%' or 'value'; replace with actual intent values.''"

definition errName :: string where
  "errName = ''Intent has first_name or last_name but SQL WHERE does not filter by p.first_name or p.last_name. Add WHERE (LOWER(p.first_name) = LOWER('<value>') OR LOWER(p.last_name) = LOWER('<value>')) using the exact value from the intent list.''"

definition errAge :: string where
  "errAge = ''Intent has age but SQL WHERE does not filter by date_of_birth/age. Use (EXTRACT(YEAR FROM AGE(CURRENT_DATE, p.date_of_birth)) BETWEEN min AND max) with the numbers from the intent.''"

definition errUh :: string where
  "errUh = ''SQL uses uh. (e.g. uh.place_of_birth) but has no JOIN user_horoscopes uh. Add LEFT JOIN user_horoscopes uh ON p.profile_id = uh.profile_id.''"

definition errF :: string where
  "errF = ''SQL uses f. (e.g. f.native_place) but has no JOIN family_origin f. Add LEFT JOIN family_origin f ON p.profile_id = f.profile_id.''"

definition failWith :: "vstate \<Rightarrow> string \<Rightarrow> validationResult" where
  "failWith st msg = \<lparr>valid = False, sql = fst st, error = Some msg, fixed = Some (snd st \<noteq> [])\<rparr>"

text \<open>A condition is injected after \<open>WHERE\<close> (the old conditions are put in parentheses that
  close before a final \<open>LIMIT\<close>), or as a new \<open>WHERE\<close> before a final \<open>LIMIT\<close>.\<close>

definition injectCondition :: "string \<Rightarrow> string \<Rightarrow> string" where
  "injectCondition cond s =
     (if test True reWhere s
      then replaceFirst True reLimitTail (\<lambda>m. '') '' @ mText m)
             (replaceFirstStr True reWhere (''WHERE '' @ cond @ '' AND ('') s)
      else replaceFirstStr True reLimitTail ('' WHERE '' @ cond @ '' $&'') s)"

definition isNameIntent :: "intent \<Rightarrow> bool" where
  "isNameIntent i = (toLowerCase (attribute i) = ''first_name'' \<or> toLowerCase (attribute i) = ''last_name'')"

definition nameCond :: "string \<Rightarrow> string" where
  "nameCond v = ''(LOWER(p.first_name) = LOWER('' @ apos @ v @ apos @ '') OR LOWER(p.last_name) = LOWER(''
                @ apos @ v @ apos @ ''))''"

text \<open>7) An intent on a name: the query must filter on a name column; if it does not, the
  filter is injected, or the query is rejected when the intent's value is empty.\<close>

definition nameCheck :: "intent list \<Rightarrow> vstate \<Rightarrow> string + vstate" where
  "nameCheck xs st =
     (case st of (s, fixes) \<Rightarrow>
        (case find isNameIntent xs of
           None \<Rightarrow> Inr (s, fixes)
         | Some ni \<Rightarrow>
             (let nameValue = escapeQuotes (val ni);
                  hasNameInWhere = (test True reWhere s \<and> (test True reFirstNameCol s \<or> test True reLastNameCol s))
              in if \<not> hasNameInWhere \<and> nameValue \<noteq> [] then
                   Inr (injectCondition (nameCond nameValue) s, fixes @ [''injected name filter from intent''])
                 else if \<not> hasNameInWhere then Inl errName
                 else Inr (s, fixes))))"

definition isAgeIntent :: "intent \<Rightarrow> bool" where
  "isAgeIntent i = (toLowerCase (attribute i) = ''age'')"

definition ageCond :: "string \<Rightarrow> string \<Rightarrow> string" where
  "ageCond lo hi = ''(EXTRACT(YEAR FROM AGE(CURRENT_DATE, p.date_of_birth)) BETWEEN '' @ lo @ '' AND '' @ hi @ '')''"

definition ageCheck :: "intent list \<Rightarrow> vstate \<Rightarrow> string + vstate" where
  "ageCheck xs st =
     (case st of (s, fixes) \<Rightarrow>
        (case find isAgeIntent xs of
           None \<Rightarrow> Inr (s, fixes)
         | Some ai \<Rightarrow>
             (let hasAgeInWhere = (test True reWhere s \<and>
                    (test True reDateOfBirth s \<or> test True reAgeCall s \<or> test True reExtractYear s));
                  ageRange = matchRe False reAgeRange (val ai)
              in if \<not> hasAgeInWhere \<and> ageRange \<noteq> None then
                   Inr (injectCondition (ageCond (capText (the ageRange) 1) (capText (the ageRange) 2)) s,
                        fixes @ [''injected age filter from intent''])
                 else if \<not> hasAgeInWhere then Inl errAge
                 else Inr (s, fixes))))"

text \<open>8) A query that uses the alias \<open>uh\<close> or \<open>f\<close> must join its table.\<close>

definition joinCheck :: "vstate \<Rightarrow> validationResult" where
  "joinCheck st =
     (if test True reUhDot (fst st) \<and> \<not> test True reJoinHoroscopes (fst st) then failWith st errUh
      else if test True reFDot (fst st) \<and> \<not> test True reJoinFamilyOrigin (fst st) then failWith st errF
      else \<lparr>valid = True, sql = fst st, error = None, fixed = (if snd st \<noteq> [] then Some True else None)\<rparr>)"

definition checks :: "intent list \<Rightarrow> vstate \<Rightarrow> validationResult" where
  "checks xs st =
     (if \<not> test True reFromProfiles (fst st) then failWith st errFromProfiles
      else if test False rePlaceholder (fst st) \<and> xs \<noteq> [] then failWith st errPlaceholder
      else (case nameCheck xs st of
              Inl msg \<Rightarrow> failWith st msg
            | Inr st1 \<Rightarrow>
                (case ageCheck xs st1 of
                   Inl msg \<Rightarrow> failWith st1 msg
                 | Inr st2 \<Rightarrow> joinCheck st2)))"

definition validateAndFixSql :: "string \<Rightarrow> intent list \<Rightarrow> validationResult" where
  "validateAndFixSql q xs = checks xs (autoFix xs (trim q))"

section \<open>The deterministic query builder: \<open>planner.service.ts\<close>\<close>

text \<open>
  A value thrown by a collaborator or by the language: an \<open>Error\<close> with its message, or any
  other value (with its rendering by \<open>String\<close>).
\<close>

datatype thrown = ErrorWith string | NonError string

text \<open>
  The mapping tables are object literals, looked up with \<open>TABLE[attr] ?? default\<close>.  A key
  that is not in the literal is \<open>undefined\<close>, except the names every object inherits from
  \<open>Object.prototype\<close>, whose values are not strings or arrays; using such a value as one
  throws a \<open>TypeError\<close>.
\<close>

datatype 'a lookup = Own 'a | Inherited | Undefined

definition objectPrototypeKeys :: "string list" where
  "objectPrototypeKeys =
     [''constructor'', ''__proto__'', ''hasOwnProperty'', ''isPrototypeOf'', ''propertyIsEnumerable'',
      ''toLocaleString'', ''toString'', ''valueOf'', ''__defineGetter__'', ''__defineSetter__'',
      ''__lookupGetter__'', ''__lookupSetter__'']"

definition lookupIn :: "(string \<times> 'a) list \<Rightarrow> string \<Rightarrow> 'a lookup" where
  "lookupIn table k =
     (case map_of table k of
        Some v \<Rightarrow> Own v
      | None \<Rightarrow> if k \<in> set objectPrototypeKeys then Inherited else Undefined)"

definition dash :: string where "dash = '' '' @ [emDash] @ '' ''"

definition INTENT_TO_SQL :: "(string \<times> string) list" where
  "INTENT_TO_SQL =
    [(''first_name'', ''LOWER(p.first_name) = LOWER('<value>') OR LOWER(p.last_name) = LOWER('<value>')''),
     (''last_name'', ''LOWER(p.last_name) LIKE LOWER('%<value>%')''),
     (''gender'', ''LOWER(p.gender) = LOWER('<value>') or p.gender ILIKE '%<value>%'' @ apos),
     (''marital_status'', ''LOWER(p.marital_status) = LOWER('<value>') or p.marital_status ILIKE '%<value>%'' @ apos),
     (''profession'', ''LOWER(c.profession) LIKE LOWER('%<value>%')'' @ dash @ ''career_details c only, never master_castes''),
     (''city'', ''LOWER(pl.city) LIKE LOWER('%<value>%') or pl.state ILIKE '%<value>%'' @ apos @ dash @ ''profile_locations pl''),
     (''state'', ''LOWER(pl.state) LIKE LOWER('%<value>%')''),
     (''country'', ''LOWER(pl.country) LIKE LOWER('%<value>%')'' @ dash @ ''profile_locations pl''),
     (''work_country'', ''LOWER(c.work_location) LIKE LOWER('%<value>%') or LOWER(pl.country) LIKE LOWER('%<value>%')''),
     (''mother_tongue'', ''LOWER(p.mother_tongue) LIKE LOWER('%<value>%')'' @ dash @ ''profiles only''),
     (''religion'', ''LOWER(sb.religion) LIKE LOWER('%<value>%')'' @ dash @ ''social_background sb''),
     (''caste'', ''LOWER(sb.caste) LIKE LOWER('%<value>%') or sb.sub_caste ILIKE '%<value>%'' @ apos),
     (''diet'', ''LOWER(lh.diet) LIKE LOWER('%<value>%')'' @ dash @ ''lifestyle_habits lh, join ON p.profile_id = lh.profile_id''),
     (''smoking'', ''LOWER(lh.smoking) = LOWER('<value>')''),
     (''drinking'', ''LOWER(lh.drinking) = LOWER('<value>')''),
     (''degree_type'', ''LOWER(ed.degree_type) LIKE LOWER('%<value>%') or ed.specialization ILIKE '%<value>%'' @ apos),
     (''income'', ''c.annual_income >= <number> (e.g. 15 LPA = 1500000)''),
     (''age'', ''EXTRACT(YEAR FROM AGE(CURRENT_DATE, p.date_of_birth)) BETWEEN <min> AND <max>''),
     (''height'', ''p.height_cm >= <value> or BETWEEN''),
     (''weight'', ''p.weight_kg <= <value> or BETWEEN''),
     (''subscription_plan'', ''LOWER(us.plan_name) LIKE LOWER('%<value>%')'' @ dash @ ''join users u, user_subscriptions us''),
     (''native_place'', ''LOWER(f.native_place) LIKE LOWER('%<value>%') OR LOWER(uh.place_of_birth) LIKE LOWER('%<value>%')'' @ dash @ ''family_origin f or user_horoscopes uh'')]"

definition reLocationPrefix :: regex where
  "reLocationPrefix = Seq Bol (str ''location.'')"

text \<open>\<open>normalizeIntentAttribute\<close>; the last line is \<open>lower.replace(...).trim() || attr\<close>.\<close>

definition normalizeIntentAttribute :: "string \<Rightarrow> string" where
  "normalizeIntentAttribute attr =
     (let lower = trim (toLowerCase attr) in
      if lower = ''location.city'' \<or> lower = ''location'' \<or> lower = ''city'' then ''city''
      else if lower = ''income.value'' \<or> lower = ''income'' then ''income''
      else (let r = trim (replaceFirstStr True reLocationPrefix [] lower) in if r = [] then attr else r))"

definition reCommentStart :: regex where
  "reCommentStart = Alt (seqs [sps, lit emDash, sps]) (seqs [sps, str ''(e.g.''])"

text \<open>\<open>getSqlPattern\<close>: the entry up to its comment.  An inherited entry has no \<open>split\<close>.\<close>

definition getSqlPattern :: "string \<Rightarrow> thrown + string" where
  "getSqlPattern attr =
     (case lookupIn INTENT_TO_SQL attr of
        Own raw \<Rightarrow> Inr (trim (splitHead False reCommentStart raw))
      | Undefined \<Rightarrow> Inr []
      | Inherited \<Rightarrow> Inl (ErrorWith ''raw.split is not a function''))"

definition INTENT_TABLES :: "(string \<times> string list) list" where
  "INTENT_TABLES =
    [(''first_name'', []), (''last_name'', []), (''gender'', []), (''marital_status'', []),
     (''mother_tongue'', []), (''age'', []), (''height'', []), (''weight'', []),
     (''profession'', [''c'']), (''income'', [''c'']), (''degree_type'', [''ed'']),
     (''work_country'', [''c'', ''pl'']),
     (''city'', [''pl'']), (''state'', [''pl'']), (''country'', [''pl'']),
     (''religion'', [''sb'']), (''caste'', [''sb'']),
     (''diet'', [''lh'']), (''smoking'', [''lh'']), (''drinking'', [''lh'']),
     (''native_place'', [''f'', ''uh'']), (''subscription_plan'', [''u'', ''us''])]"

text \<open>\<open>selectColumnsForIntent\<close>; both sets are given by the lists of their members.\<close>

definition selectColumnsForIntent :: "string list \<Rightarrow> string list \<Rightarrow> string list" where
  "selectColumnsForIntent intentAttrs joins =
     [''p.profile_id'', ''p.first_name'', ''p.last_name'']
     @ (if ''pl'' \<in> set joins \<or> ''city'' \<in> set intentAttrs \<or> ''state'' \<in> set intentAttrs
           \<or> ''country'' \<in> set intentAttrs then [''pl.city'', ''pl.state''] else [])
     @ (if ''c'' \<in> set joins
        then (if ''profession'' \<in> set intentAttrs then [''c.profession''] else [])
             @ (if ''income'' \<in> set intentAttrs then [''c.annual_income''] else [])
        else [])
     @ (if ''sb'' \<in> set joins then [''sb.religion'', ''sb.caste''] else [])
     @ (if ''lh'' \<in> set joins then [''lh.diet'', ''lh.smoking'', ''lh.drinking''] else [])
     @ (if ''mother_tongue'' \<in> set intentAttrs then [''p.mother_tongue''] else [])
     @ (if ''gender'' \<in> set intentAttrs then [''p.gender''] else [])
     @ (if ''marital_status'' \<in> set intentAttrs then [''p.marital_status''] else [])
     @ (if ''f'' \<in> set joins then [''f.native_place''] else [])
     @ (if ''uh'' \<in> set joins then [''uh.place_of_birth''] else [])
     @ (if ''ed'' \<in> set joins then [''ed.degree_type''] else [])"

text \<open>The first loop of \<open>buildSqlFromIntent\<close>: the aliases to join.  An inherited entry has
  no \<open>forEach\<close>.\<close>

fun collectJoins :: "intent list \<Rightarrow> thrown + string list" where
  "collectJoins [] = Inr []"
| "collectJoins (i # rest) =
     (case lookupIn INTENT_TABLES (attribute i) of
        Inherited \<Rightarrow> Inl (ErrorWith ''tables.forEach is not a function'')
      | Undefined \<Rightarrow> collectJoins rest
      | Own tables \<Rightarrow> (case collectJoins rest of Inl e \<Rightarrow> Inl e | Inr js \<Rightarrow> Inr (tables @ js)))"

definition joinLinesFor :: "string list \<Rightarrow> string list" where
  "joinLinesFor joins =
       (if ''pl'' \<in> set joins then [''LEFT JOIN profile_locations pl ON p.profile_id = pl.profile_id''] else [])
     @ (if ''c'' \<in> set joins then [''LEFT JOIN career_details c ON p.profile_id = c.profile_id''] else [])
     @ (if ''sb'' \<in> set joins then [''LEFT JOIN social_background sb ON p.profile_id = sb.profile_id''] else [])
     @ (if ''lh'' \<in> set joins then [''LEFT JOIN lifestyle_habits lh ON p.profile_id = lh.profile_id''] else [])
     @ (if ''ed'' \<in> set joins then [''LEFT JOIN education_details ed ON p.profile_id = ed.profile_id''] else [])
     @ (if ''f'' \<in> set joins then [''LEFT JOIN family_origin f ON p.profile_id = f.profile_id''] else [])
     @ (if ''uh'' \<in> set joins then [''LEFT JOIN user_horoscopes uh ON p.profile_id = uh.profile_id''] else [])"

text \<open>Decimal numerals.  The source computes the income with floating-point numbers; the
  model computes with natural numbers, which agrees with the source as long as the product
  stays below \<open>2^53\<close>.\<close>

definition parseNat :: "string \<Rightarrow> nat" where
  "parseNat ds = foldl (\<lambda>a c. 10 * a + digitVal c) 0 ds"

definition digitChar :: "nat \<Rightarrow> char" where
  "digitChar d = char_of (48 + d)"

fun showNat :: "nat \<Rightarrow> string" where
  "showNat n = (if n < 10 then [digitChar n] else showNat (n div 10) @ [digitChar (n mod 10)])"

declare showNat.simps [simp del]

definition reLpa :: regex where
  "reLpa = seqs [Grp 1 (plus dg), sp0, str ''LPA'']"

definition rePctValueSlot :: regex where
  "rePctValueSlot = str ''%<value>%''"

definition reValueSlot :: regex where
  "reValueSlot = str ''<value>''"

definition reLowerOr :: regex where
  "reLowerOr = seqs [sps, str ''or'', sps]"

text \<open>The expression for one intent whose attribute has the pattern \<open>expr\<close>.\<close>

definition renderCondition :: "intent \<Rightarrow> string \<Rightarrow> string" where
  "renderCondition i expr =
     (if attribute i = ''income'' then
        (case matchRe True reLpa (val i) of
           Some m \<Rightarrow> ''c.annual_income >= '' @ showNat (parseNat (capText m 1) * 100000)
         | None \<Rightarrow> ''c.annual_income >= '' @ showNat 1000000)
      else if attribute i = ''age'' then
        (case matchRe False reAgeRange (val i) of
           Some m \<Rightarrow> ageCond (capText m 1) (capText m 2)
         | None \<Rightarrow> ageCond ''25'' ''30'')
      else
        replaceAllStr False reLowerOr '' OR ''
          (replaceAllStr True reValueSlot (escapeQuotes (val i))
             (replaceAllStr True rePctValueSlot (''%'' @ escapeQuotes (val i) @ ''%'') expr)))"

definition wrapOr :: "string \<Rightarrow> string" where
  "wrapOr expr = (if includesStr expr '' OR '' then ''('' @ expr @ '')'' else expr)"

text \<open>The second loop: one condition for each intent whose attribute has a pattern; an
  intent without one is passed over (\<open>if (!expr) continue\<close>).\<close>

fun conditionsFor :: "intent list \<Rightarrow> thrown + string list" where
  "conditionsFor [] = Inr []"
| "conditionsFor (i # rest) =
     (case getSqlPattern (attribute i) of
        Inl e \<Rightarrow> Inl e
      | Inr expr \<Rightarrow>
          (case conditionsFor rest of
             Inl e \<Rightarrow> Inl e
           | Inr cs \<Rightarrow> Inr (if expr = [] then cs else wrapOr (renderCondition i expr) # cs)))"

definition normalizeAll :: "intent list \<Rightarrow> intent list" where
  "normalizeAll xs = map (\<lambda>i. i\<lparr>attribute := normalizeIntentAttribute (attribute i)\<rparr>) xs"

definition whereClauseOf :: "string list \<Rightarrow> string" where
  "whereClauseOf conditions = (if conditions \<noteq> [] then '' WHERE '' @ joinWith '' AND '' conditions else [])"

definition assemble :: "string list \<Rightarrow> string list \<Rightarrow> string list \<Rightarrow> string" where
  "assemble selectCols joinLines conditions =
     ''SELECT '' @ joinWith '', '' selectCols @ ''\<newline>FROM profiles p\<newline>''
     @ joinWith ''\<newline>'' joinLines @ whereClauseOf conditions @ ''\<newline>LIMIT 50''"

definition buildSqlFromIntent :: "intent list \<Rightarrow> thrown + string" where
  "buildSqlFromIntent extractedIntent =
     (let normalized = normalizeAll extractedIntent in
      if normalized = [] then Inr []
      else (case collectJoins normalized of
              Inl e \<Rightarrow> Inl e
            | Inr joins \<Rightarrow>
                (case conditionsFor normalized of
                   Inl e \<Rightarrow> Inl e
                 | Inr conditions \<Rightarrow>
                     Inr (assemble (selectColumnsForIntent (map attribute normalized) joins)
                            (joinLinesFor joins) conditions))))"

section \<open>The rule-based intent extractor: \<open>fallbackExtractIntent\<close>\<close>

text \<open>\<open>a || b\<close> on two match results, and the test \<open>m?.[i]\<close>: the match exists and its
  capture \<open>i\<close> is a non-empty string.\<close>

definition orElse :: "minfo option \<Rightarrow> minfo option \<Rightarrow> minfo option" where
  "orElse a b = (case a of Some m \<Rightarrow> Some m | None \<Rightarrow> b)"

definition hasGroup :: "minfo option \<Rightarrow> nat \<Rightarrow> bool" where
  "hasGroup mo i = (case mo of None \<Rightarrow> False | Some m \<Rightarrow> truthy (grp m i))"

definition groupOf :: "minfo option \<Rightarrow> nat \<Rightarrow> string" where
  "groupOf mo i = (case mo of None \<Rightarrow> [] | Some m \<Rightarrow> capText m i)"

definition alpha :: regex where "alpha = Cls False [CUpper, CLower]"
definition alphaSp :: regex where "alphaSp = Cls False [CUpper, CLower, CSpace]"
definition lower :: regex where "lower = Cls False [CLower]"
definition lowerSp :: regex where "lowerSp = Cls False [CLower, CSpace]"

definition reProfession :: regex where
  "reProfession =
     seqs [WordB,
           Grp 1 (alts [seqs [str ''software'', sps, str ''engineer'', opt (lit (CHR ''s''))],
                        seqs [str ''chartered'', sps, str ''accountant'', opt (lit (CHR ''s''))],
                        seqs [str ''doctor'', opt (lit (CHR ''s''))],
                        seqs [str ''engineer'', opt (lit (CHR ''s''))],
                        seqs [str ''lawyer'', opt (lit (CHR ''s''))],
                        seqs [str ''teacher'', opt (lit (CHR ''s''))],
                        seqs [str ''accountant'', opt (lit (CHR ''s''))]]),
           WordB]"

definition reOrigin :: regex where
  "reOrigin =
     alts [seqs [str ''originally'', sps, str ''from''],
           seqs [str ''hail'', opt (lit (CHR ''s'')), sps, str ''from''],
           seqs [str ''native'', sps, str ''of'']]"

definition reNativeLower :: regex where
  "reNativeLower =
     seqs [WordB, reOrigin, sps, Grp 1 (Seq lower (lazyRange 0 40 lowerSp)),
           Alt (Seq sp0 (lit (CHR ''.''))) Eol]"

definition reNativeAny :: regex where
  "reNativeAny =
     seqs [reOrigin, sps, Grp 1 (Seq alpha (lazyRange 0 40 alphaSp)),
           Alt (Seq sp0 (lit (CHR ''.''))) Eol]"

definition reCityLong :: regex where
  "reCityLong =
     seqs [WordB,
           alts [str ''in'', str ''from'', str ''at'', seqs [str ''live'', opt (lit (CHR ''s'')), sps, str ''in'']],
           sps, Grp 1 (Seq alpha (lazyRange 1 40 alphaSp)),
           alts [Seq sps (str ''earning''), Seq sps (str ''who''), Seq sps (str ''speak''), lit (CHR ''.''), Eol]]"

definition reCityShort :: regex where
  "reCityShort = seqs [WordB, Alt (str ''in'') (str ''from''), sps, Grp 1 (plus alpha), WordB]"

definition reIncomeMore :: regex where
  "reIncomeMore =
     seqs [opt (Seq (str ''earning'') sps),
           alts [str ''more than'', str ''above'', str ''over''],
           sp0, Grp 1 (plus dg), sp0, str ''lpa'']"

definition reIncomeLpa :: regex where
  "reIncomeLpa = seqs [WordB, Grp 1 (plus dg), sp0, str ''lpa'']"

definition reReligion :: regex where
  "reReligion =
     seqs [WordB,
           Grp 1 (alts [str ''hindu'', str ''islam'', str ''muslim'', str ''christianity'', str ''christian'',
                        str ''sikh'', str ''jain'', str ''buddhist'']),
           WordB]"

definition reCaste :: regex where
  "reCaste =
     seqs [WordB,
           Grp 1 (alts [str ''brahmin'', str ''rajput'', str ''maratha'', str ''kayasta'', str ''bania'',
                        str ''vaishya'', str ''kshatriya'']),
           WordB]"

definition reSpeakLower :: regex where
  "reSpeakLower =
     seqs [alts [str ''speak'', str ''who speak'', str ''mother tongue''], sps, Grp 1 (plus lower)]"

definition reSpeakAny :: regex where
  "reSpeakAny = seqs [Alt (str ''speak'') (str ''who speak''), sps, Grp 1 (plus alpha)]"

definition reNameWord :: regex where
  "reNameWord = Grp 1 (Seq alpha (plus lower))"

definition rePossessive :: regex where
  "rePossessive = seqs [reNameWord, str (apos @ ''s''), sps, str ''profile'']"

definition reShowMeEnd :: regex where
  "reShowMeEnd =
     seqs [Alt (seqs [str ''show'', sps, str ''me'']) (seqs [str ''profile'', sps, str ''of'']),
           sps, reNameWord, opt (lit (CHR ''.'')), sp0, Eol]"

definition reProfileOf :: regex where
  "reProfileOf = seqs [str ''profile'', sps, str ''of'', sps, reNameWord]"

definition reAgeBetween :: regex where
  "reAgeBetween =
     seqs [Alt (str ''between'') (Seq (str ''age'') (opt (lit (CHR ''s'')))), sps, Grp 1 (plus dg), sps,
           alts [str ''and'', str ''to'', str ''-''], sps, Grp 2 (plus dg)]"

definition reAgeDash :: regex where
  "reAgeDash =
     seqs [Grp 1 (plus dg), sp0, lit (CHR ''-''), sp0, Grp 2 (plus dg), sp0,
           opt (Seq (str ''year'') (opt (lit (CHR ''s''))))]"

text \<open>One rule: when the match has its captures, one intent is pushed.\<close>

definition pushIf :: "bool \<Rightarrow> string \<Rightarrow> string \<Rightarrow> intent list" where
  "pushIf c a v = (if c then [mk a v] else [])"

definition professionRule :: "string \<Rightarrow> intent list" where
  "professionRule low =
     (let m = matchRe True reProfession low in pushIf (hasGroup m 1) ''profession'' (trim (groupOf m 1)))"

definition nativeRule :: "string \<Rightarrow> string \<Rightarrow> intent list" where
  "nativeRule low q =
     (let m = orElse (matchRe True reNativeLower low) (matchRe True reNativeAny q)
      in pushIf (hasGroup m 1) ''native_place'' (trim (groupOf m 1)))"

definition cityRule :: "string \<Rightarrow> intent list" where
  "cityRule q =
     (let m = orElse (matchRe True reCityLong q) (matchRe True reCityShort q)
      in pushIf (hasGroup m 1) ''city'' (trim (groupOf m 1)))"

definition incomeRule :: "string \<Rightarrow> intent list" where
  "incomeRule low =
     (let m = orElse (matchRe True reIncomeMore low) (matchRe True reIncomeLpa low)
      in pushIf (hasGroup m 1) ''income'' (groupOf m 1 @ '' LPA''))"

definition religionRule :: "string \<Rightarrow> intent list" where
  "religionRule low =
     (let m = matchRe True reReligion low in pushIf (hasGroup m 1) ''religion'' (trim (groupOf m 1)))"

definition casteRule :: "string \<Rightarrow> intent list" where
  "casteRule low =
     (let m = matchRe True reCaste low in pushIf (hasGroup m 1) ''caste'' (trim (groupOf m 1)))"

definition languageRule :: "string \<Rightarrow> string \<Rightarrow> intent list" where
  "languageRule low q =
     (let m = orElse (matchRe True reSpeakLower low) (matchRe True reSpeakAny q)
      in pushIf (hasGroup m 1) ''mother_tongue'' (trim (groupOf m 1)))"

definition nameRule :: "string \<Rightarrow> intent list" where
  "nameRule q =
     (let m = orElse (matchRe True rePossessive q) (orElse (matchRe True reShowMeEnd q) (matchRe True reProfileOf q))
      in pushIf (hasGroup m 1) ''first_name'' (trim (groupOf m 1)))"

definition ageRule :: "string \<Rightarrow> intent list" where
  "ageRule low =
     (let m = orElse (matchRe True reAgeBetween low) (matchRe False reAgeDash low)
      in pushIf (hasGroup m 1 \<and> hasGroup m 2) ''age'' (groupOf m 1 @ ''-'' @ groupOf m 2))"

text \<open>
  \<open>fallbackExtractIntent\<close>.  The rules run in the order of the source and append to one list;
  the city rule runs only when no intent pushed so far has the attribute \<open>native_place\<close>.
  Every array the source indexes is guarded by \<open>?.\<close>, so the function has no raising path
  and the model is a total function.
\<close>

definition fallbackExtractIntent :: "string \<Rightarrow> intent list" where
  "fallbackExtractIntent question =
     (let q = trim question;
          low = toLowerCase q;
          upToNative = professionRule low @ nativeRule low q;
          upToCity = upToNative @ (if \<not> list_ex (\<lambda>i. attribute i = ''native_place'') upToNative then cityRule q else [])
      in upToCity @ incomeRule low @ religionRule low @ casteRule low @ languageRule low q
         @ nameRule q @ ageRule low)"

section \<open>The execution gateway: \<open>executor.service.ts\<close>\<close>

text \<open>
  The database call \<open>readonlyDb.raw(sql)\<close> either throws or resolves to a result object,
  whose \<open>rows\<close> field is an array or is not.
\<close>

record 'row dbResult =
  rowsField :: "'row list option"

type_synonym 'row database = "string \<Rightarrow> thrown + 'row dbResult"

text \<open>What \<open>executeMatrimonialQuery\<close> returns: an array of rows, or an object with the single
  field \<open>error\<close>.\<close>

datatype 'row execResult = Rows "'row list" | ErrorObj string

definition executeMatrimonialQuery :: "'row database \<Rightarrow> string \<Rightarrow> 'row execResult" where
  "executeMatrimonialQuery raw q =
     (case raw q of
        Inr result \<Rightarrow> (case rowsField result of Some rows \<Rightarrow> Rows rows | None \<Rightarrow> Rows [])
      | Inl (ErrorWith msg) \<Rightarrow> ErrorObj msg
      | Inl (NonError v) \<Rightarrow> ErrorObj ''Unknown error occurred'')"

definition isRows :: "'row execResult \<Rightarrow> bool" where
  "isRows r = (case r of Rows rows \<Rightarrow> True | ErrorObj msg \<Rightarrow> False)"

definition isErrorObj :: "'row execResult \<Rightarrow> bool" where
  "isErrorObj r = (case r of Rows rows \<Rightarrow> False | ErrorObj msg \<Rightarrow> True)"

section \<open>The request handlers: \<open>app.ts\<close>\<close>

text \<open>
  The collaborators of a request to \<open>/api/ask\<close>, each free to answer anything or to throw:
  \<^item> \<open>prelude\<close>: schema retrieval and intent extraction, awaited together; the schema context
    and the extracted intent;
  \<^item> \<open>generated\<close>: the query the text model writes when the intent is empty;
  \<^item> \<open>corrected n q e\<close>: the query the text model writes at the correction after attempt
    \<open>n\<close>, given the failing query \<open>q\<close> and the error \<open>e\<close>;
  \<^item> \<open>database n\<close>: the database call of attempt \<open>n\<close>;
  \<^item> \<open>thesys\<close>: the answer of the optional rendering service (\<open>None\<close> when it is not
    configured).
  \<open>sqlToSupabaseQuery\<close>, a pure function of the query whose value plays no role here, is
  the parameter \<open>supabase\<close>.  Token usage is telemetry and is left out.
\<close>

record 'row world =
  prelude :: "thrown + (string \<times> intent list)"
  generated :: "thrown + string"
  corrected :: "nat \<Rightarrow> string \<Rightarrow> string \<Rightarrow> thrown + string"
  database :: "nat \<Rightarrow> 'row database"
  thesys :: "(thrown + string option) option"
  supabase :: "string \<Rightarrow> string"

text \<open>A response: the status and the fields of the JSON body (\<open>None\<close>: the field is absent).\<close>

record 'row response =
  status :: nat
  success :: "bool option"
  generated_sql :: "string option"
  executed_sql :: "string option"
  supabase_query :: "string option"
  errorText :: "string option"
  detail :: "string option"
  extracted_intent :: "intent list option"
  rowData :: "'row list option"
  c1_response :: "string option"

definition emptyResponse :: "nat \<Rightarrow> 'row response" where
  "emptyResponse st =
     \<lparr>status = st, success = None, generated_sql = None, executed_sql = None, supabase_query = None,
      errorText = None, detail = None, extracted_intent = None, rowData = None, c1_response = None\<rparr>"

text \<open>What a request did: the number of attempts, the queries given to the validator and the
  queries given to \<open>executeMatrimonialQuery\<close>, in order.\<close>

record trace =
  attempts :: nat
  validatedLog :: "string list"
  executedLog :: "string list"

definition MAX_CORRECTION_ATTEMPTS :: nat where
  "MAX_CORRECTION_ATTEMPTS = 3"

definition missingWhere :: string where
  "missingWhere = ''Missing WHERE clause. Add a WHERE clause with one condition per extracted intent (e.g. profession -> c.profession, city -> pl.city, income -> c.annual_income, religion -> sb.religion, caste -> sb.caste, mother_tongue -> p.mother_tongue). Use only JOINs needed for those filters.''"

text \<open>\<open>generateMatrimonialSQL\<close>: the deterministic builder when there is an intent, else the
  text model.\<close>

definition generateMatrimonialSQL :: "'row world \<Rightarrow> intent list \<Rightarrow> thrown + string" where
  "generateMatrimonialSQL w extractedIntent =
     (if normalizeAll extractedIntent \<noteq> [] then buildSqlFromIntent extractedIntent else generated w)"

text \<open>\<open>'error' in results && results.error\<close>: an error object with a non-empty message.\<close>

definition hasError :: "'row execResult \<Rightarrow> bool" where
  "hasError r = (case r of Rows rows \<Rightarrow> False | ErrorObj msg \<Rightarrow> msg \<noteq> [])"

definition errorOf :: "'row execResult \<Rightarrow> string" where
  "errorOf r = (case r of Rows rows \<Rightarrow> [] | ErrorObj msg \<Rightarrow> msg)"

definition rowsOf :: "'row execResult \<Rightarrow> 'row list" where
  "rowsOf r = (case r of Rows rows \<Rightarrow> rows | ErrorObj msg \<Rightarrow> [])"

definition rejected :: "validationResult \<Rightarrow> bool" where
  "rejected v = (\<not> valid v \<and> truthy (error v))"

text \<open>The first attempt: validate, then report the validation error, or a missing \<open>WHERE\<close>,
  or execute.\<close>

definition firstAttempt :: "'row world \<Rightarrow> intent list \<Rightarrow> string \<Rightarrow> string \<times> 'row execResult \<times> trace" where
  "firstAttempt w xs q =
     (let v = validateAndFixSql q xs in
      if rejected v then
        (sql v, ErrorObj (the (error v)), \<lparr>attempts = 1, validatedLog = [q], executedLog = []\<rparr>)
      else if xs \<noteq> [] \<and> \<not> test True reWhere (sql v) then
        (sql v, ErrorObj missingWhere, \<lparr>attempts = 1, validatedLog = [q], executedLog = []\<rparr>)
      else
        (sql v, executeMatrimonialQuery (database w 1) (sql v),
         \<lparr>attempts = 1, validatedLog = [q], executedLog = [sql v]\<rparr>))"

text \<open>One pass of the correction loop once the corrected query \<open>q\<close> has arrived.\<close>

definition retry :: "'row world \<Rightarrow> intent list \<Rightarrow> string \<Rightarrow> trace \<Rightarrow> string \<times> 'row execResult \<times> trace" where
  "retry w xs q tr =
     (let v = validateAndFixSql q xs in
      if rejected v then
        (sql v, ErrorObj (the (error v)),
         tr\<lparr>attempts := attempts tr + 1, validatedLog := validatedLog tr @ [q]\<rparr>)
      else
        (sql v, executeMatrimonialQuery (database w (attempts tr + 1)) (sql v),
         tr\<lparr>attempts := attempts tr + 1, validatedLog := validatedLog tr @ [q],
            executedLog := executedLog tr @ [sql v]\<rparr>))"

text \<open>The loop \<open>while (error && attempts < MAX_CORRECTION_ATTEMPTS)\<close>.  A correction that
  throws leaves the loop with the exception.\<close>

function correctionLoop :: "'row world \<Rightarrow> intent list \<Rightarrow> string \<times> 'row execResult \<times> trace
    \<Rightarrow> (thrown \<times> trace) + (string \<times> 'row execResult \<times> trace)" where
  "correctionLoop w xs (q, results, tr) =
     (if hasError results \<and> attempts tr < MAX_CORRECTION_ATTEMPTS then
        (case corrected w (attempts tr) q (errorOf results) of
           Inl e \<Rightarrow> Inl (e, tr)
         | Inr q' \<Rightarrow> correctionLoop w xs (retry w xs q' tr))
      else Inr (q, results, tr))"
  by pat_completeness auto
termination
  by (relation "measure (\<lambda>(w, xs, q, results, tr). MAX_CORRECTION_ATTEMPTS - attempts tr)")
     (auto simp: retry_def Let_def)

definition reRateLimit :: regex where
  "reRateLimit = alts [str ''429'', str ''quota'', str ''rate limit'', str ''Too Many Requests'']"

definition messageOf :: "thrown \<Rightarrow> string" where
  "messageOf e = (case e of ErrorWith msg \<Rightarrow> msg | NonError v \<Rightarrow> v)"

text \<open>The \<open>catch\<close> block of \<open>/api/ask\<close>.\<close>

definition pipelineError :: "thrown \<Rightarrow> 'row response" where
  "pipelineError e =
     (if test True reRateLimit (messageOf e) then
        (emptyResponse 429)
          \<lparr>success := Some False,
           errorText := Some ''Gemini API rate limit or quota exceeded. Wait a minute and retry, or check your plan at https://ai.google.dev/gemini-api/docs/rate-limits'',
           detail := Some (take 500 (messageOf e))\<rparr>
      else
        (emptyResponse 500)
          \<lparr>success := Some False,
           errorText := Some ''Failed to process your request. Our AI is learning!'',
           detail := Some (messageOf e)\<rparr>)"

definition failureResponse :: "'row world \<Rightarrow> intent list \<Rightarrow> string \<Rightarrow> string \<Rightarrow> 'row response" where
  "failureResponse w xs q msg =
     (emptyResponse 422)
       \<lparr>success := Some False, generated_sql := Some q, supabase_query := Some (supabase w q),
        errorText := Some msg, extracted_intent := Some xs\<rparr>"

definition successResponse :: "'row world \<Rightarrow> intent list \<Rightarrow> string \<Rightarrow> 'row list \<Rightarrow> string option \<Rightarrow> 'row response" where
  "successResponse w xs q rows c1 =
     (emptyResponse 200)
       \<lparr>success := Some True, generated_sql := Some q, supabase_query := Some (supabase w q),
        extracted_intent := Some xs, rowData := Some rows,
        c1_response := (if truthy c1 then c1 else None)\<rparr>"

definition noTrace :: trace where
  "noTrace = \<lparr>attempts = 0, validatedLog = [], executedLog = []\<rparr>"

text \<open>The handler of \<open>POST /api/ask\<close>, with the trace of what it did.\<close>

definition ask :: "'row world \<Rightarrow> string \<Rightarrow> 'row response \<times> trace" where
  "ask w question =
     (if question = [] then
        ((emptyResponse 400)\<lparr>errorText := Some ''Please provide a matrimonial search question.''\<rparr>, noTrace)
      else
        (case prelude w of
           Inl e \<Rightarrow> (pipelineError e, noTrace)
         | Inr (schemaContext, xs) \<Rightarrow>
             (case generateMatrimonialSQL w xs of
                Inl e \<Rightarrow> (pipelineError e, noTrace)
              | Inr q0 \<Rightarrow>
                  (case correctionLoop w xs (firstAttempt w xs q0) of
                     Inl (e, tr) \<Rightarrow> (pipelineError e, tr)
                   | Inr (q, results, tr) \<Rightarrow>
                       if hasError results then (failureResponse w xs q (errorOf results), tr)
                       else
                         (case thesys w of
                            None \<Rightarrow> (successResponse w xs q (rowsOf results) None, tr)
                          | Some (Inl e) \<Rightarrow> (pipelineError e, tr)
                          | Some (Inr c1) \<Rightarrow> (successResponse w xs q (rowsOf results) c1, tr))))))"

text \<open>The handler of \<open>POST /api/execute\<close>: only a statement that begins with \<open>SELECT\<close> is
  given to the database.\<close>

definition reSelectGuard :: regex where
  "reSelectGuard = seqs [Bol, sp0, str ''SELECT'', sps]"

definition executeRaw :: "'row database \<Rightarrow> string \<Rightarrow> 'row response \<times> string list" where
  "executeRaw db rawSql =
     (if rawSql = [] then
        ((emptyResponse 400)\<lparr>errorText := Some (''Please provide '' @ [CHR 0x22] @ ''sql'' @ [CHR 0x22] @ '' in the request body.'')\<rparr>, [])
      else if \<not> test True reSelectGuard (trim rawSql) then
        ((emptyResponse 400)\<lparr>errorText := Some ''Only SELECT queries are allowed. Use /api/ask for natural language.''\<rparr>, [])
      else
        (let results = executeMatrimonialQuery db (trim rawSql) in
         if hasError results then
           ((emptyResponse 422)\<lparr>success := Some False, executed_sql := Some (trim rawSql),
                                errorText := Some (errorOf results)\<rparr>, [trim rawSql])
         else
           ((emptyResponse 200)\<lparr>success := Some True, executed_sql := Some (trim rawSql),
                                rowData := Some (rowsOf results)\<rparr>, [trim rawSql])))"

section \<open>Properties\<close>

text \<open>A database whose answer depends on the query it is given.\<close>

definition sampleDb :: "nat database" where
  "sampleDb s =
     (if s = ''SELECT 1'' then Inr \<lparr>rowsField = Some [1, 2]\<rparr>
      else if s = ''SELECT 2'' then Inr \<lparr>rowsField = None\<rparr>
      else if s = ''SELECT 3'' then Inl (ErrorWith ''relation does not exist'')
      else Inl (NonError ''timeout''))"

text \<open>
  C10.  \<open>executeMatrimonialQuery\<close> is total over the behaviours of the database call on the
  query it is given: when the call resolves to a result with a \<open>rows\<close> array it returns that
  array, when the result has no \<open>rows\<close> array it returns the empty array, when the call throws
  an \<open>Error\<close> it returns an object carrying the error's message, and when it throws anything
  else it returns an object with a fixed message.  The result is always either the rows or the
  error object, never both, and no exception leaves the function.
\<close>

theorem executeMatrimonialQuery_total:
  "(\<forall>result rows. raw q = Inr result \<and> rowsField result = Some rows
      \<longrightarrow> executeMatrimonialQuery raw q = Rows rows) \<and>
   (\<forall>result. raw q = Inr result \<and> rowsField result = None
      \<longrightarrow> executeMatrimonialQuery raw q = Rows []) \<and>
   (\<forall>msg. raw q = Inl (ErrorWith msg) \<longrightarrow> executeMatrimonialQuery raw q = ErrorObj msg) \<and>
   (\<forall>v. raw q = Inl (NonError v)
      \<longrightarrow> executeMatrimonialQuery raw q = ErrorObj ''Unknown error occurred'') \<and>
   isRows (executeMatrimonialQuery raw q) \<noteq> isErrorObj (executeMatrimonialQuery raw q)"
  by (simp add: executeMatrimonialQuery_def isRows_def isErrorObj_def
           split: sum.split thrown.split option.split)

theorem executeMatrimonialQuery_total_witness:
  "executeMatrimonialQuery sampleDb ''SELECT 1'' = Rows [1, 2] \<and>
   executeMatrimonialQuery sampleDb ''SELECT 2'' = Rows [] \<and>
   executeMatrimonialQuery sampleDb ''SELECT 3'' = ErrorObj ''relation does not exist'' \<and>
   executeMatrimonialQuery sampleDb ''SELECT 4'' = ErrorObj ''Unknown error occurred''"
proof -
  have a: "sampleDb ''SELECT 1'' = Inr \<lparr>rowsField = Some [1, 2]\<rparr>"
    and b: "sampleDb ''SELECT 2'' = Inr \<lparr>rowsField = None\<rparr>"
    and c: "sampleDb ''SELECT 3'' = Inl (ErrorWith ''relation does not exist'')"
    and d: "sampleDb ''SELECT 4'' = Inl (NonError ''timeout'')"
    by (simp_all add: sampleDb_def)
  from executeMatrimonialQuery_total [of sampleDb "''SELECT 1''"] a
  have 1: "executeMatrimonialQuery sampleDb ''SELECT 1'' = Rows [1, 2]" by simp
  from executeMatrimonialQuery_total [of sampleDb "''SELECT 2''"] b
  have 2: "executeMatrimonialQuery sampleDb ''SELECT 2'' = Rows []" by simp
  from executeMatrimonialQuery_total [of sampleDb "''SELECT 3''"] c
  have 3: "executeMatrimonialQuery sampleDb ''SELECT 3'' = ErrorObj ''relation does not exist''" by simp
  from executeMatrimonialQuery_total [of sampleDb "''SELECT 4''"] d
  have 4: "executeMatrimonialQuery sampleDb ''SELECT 4'' = ErrorObj ''Unknown error occurred''" by simp
  from 1 2 3 4 show ?thesis by simp
qed

subsection \<open>The correction loop is bounded\<close>

definition traceOk :: "trace \<Rightarrow> bool" where
  "traceOk tr = (attempts tr \<le> MAX_CORRECTION_ATTEMPTS \<and> length (validatedLog tr) \<le> attempts tr
                 \<and> length (executedLog tr) \<le> attempts tr)"

lemma firstAttempt_traceOk: "traceOk (snd (snd (firstAttempt w xs q)))"
  by (simp add: firstAttempt_def traceOk_def Let_def MAX_CORRECTION_ATTEMPTS_def)

lemma retry_traceOk:
  "traceOk tr \<Longrightarrow> attempts tr < MAX_CORRECTION_ATTEMPTS \<Longrightarrow> traceOk (snd (snd (retry w xs q tr)))"
  by (simp add: retry_def traceOk_def Let_def)

lemma correctionLoop_traceOk:
  "traceOk (snd (snd st)) \<Longrightarrow>
   (case correctionLoop w xs st of Inl (e, tr) \<Rightarrow> traceOk tr | Inr (q, r, tr) \<Rightarrow> traceOk tr)"
proof (induction w xs st rule: correctionLoop.induct)
  case (1 w xs q results tr)
  show ?case
  proof (cases "hasError results \<and> attempts tr < MAX_CORRECTION_ATTEMPTS")
    case False
    with "1.prems" show ?thesis by auto
  next
    case True
    show ?thesis
    proof (cases "corrected w (attempts tr) q (errorOf results)")
      case (Inl e)
      with True "1.prems" show ?thesis by simp
    next
      case (Inr q')
      have "traceOk (snd (snd (retry w xs q' tr)))"
        using "1.prems" True by (simp add: retry_traceOk)
      with "1.IH" [OF True Inr] True Inr show ?thesis by simp
    qed
  qed
qed

lemma ask_traceOk: "traceOk (snd (ask w question))"
proof -
  have no: "traceOk noTrace"
    by (simp add: traceOk_def noTrace_def)
  have loopL: "traceOk tr" if "correctionLoop w xs (firstAttempt w xs q) = Inl (e, tr)" for xs q e tr
    using correctionLoop_traceOk [of "firstAttempt w xs q" w xs] firstAttempt_traceOk [of w xs q] that
    by simp
  have loopR: "traceOk tr" if "correctionLoop w xs (firstAttempt w xs q) = Inr (q', r, tr)" for xs q q' r tr
    using correctionLoop_traceOk [of "firstAttempt w xs q" w xs] firstAttempt_traceOk [of w xs q] that
    by simp
  show ?thesis
    using no loopL loopR
    by (auto simp: ask_def split: sum.splits prod.splits option.splits)
qed

text \<open>
  C2.  The handler of \<open>/api/ask\<close> is a total function (the loop's termination is proved with
  its definition), and whatever the collaborators answer or throw, it makes at most
  \<open>MAX_CORRECTION_ATTEMPTS = 3\<close> attempts; each attempt validates at most one query and
  executes at most one query.
\<close>

theorem correction_bounded:
  "attempts (snd (ask w question)) \<le> MAX_CORRECTION_ATTEMPTS \<and> MAX_CORRECTION_ATTEMPTS = 3 \<and>
   length (validatedLog (snd (ask w question))) \<le> attempts (snd (ask w question)) \<and>
   length (executedLog (snd (ask w question))) \<le> attempts (snd (ask w question))"
  using ask_traceOk [of w question] by (simp add: traceOk_def MAX_CORRECTION_ATTEMPTS_def)

subsection \<open>What a failure response carries\<close>

definition lastValidated :: "intent list \<Rightarrow> string \<times> 'row execResult \<times> trace \<Rightarrow> bool" where
  "lastValidated xs st =
     (validatedLog (snd (snd st)) \<noteq> [] \<and>
      fst st = sql (validateAndFixSql (last (validatedLog (snd (snd st)))) xs))"

lemma firstAttempt_lastValidated: "lastValidated xs (firstAttempt w xs q)"
  by (simp add: firstAttempt_def lastValidated_def Let_def)

lemma retry_lastValidated: "lastValidated xs (retry w xs q tr)"
  by (simp add: retry_def lastValidated_def Let_def)

lemma correctionLoop_lastValidated:
  "lastValidated xs st \<Longrightarrow> correctionLoop w xs st = Inr st' \<Longrightarrow> lastValidated xs st'"
proof (induction w xs st rule: correctionLoop.induct)
  case (1 w xs q results tr)
  show ?case
  proof (cases "hasError results \<and> attempts tr < MAX_CORRECTION_ATTEMPTS")
    case False
    with "1.prems" show ?thesis by auto
  next
    case True
    show ?thesis
    proof (cases "corrected w (attempts tr) q (errorOf results)")
      case (Inl e)
      with True "1.prems" show ?thesis by simp
    next
      case (Inr q')
      with "1.IH" [OF True Inr retry_lastValidated] "1.prems" True show ?thesis by simp
    qed
  qed
qed

text \<open>A world whose schema retrieval throws.\<close>

definition wBroken :: "unit world" where
  "wBroken =
     \<lparr>prelude = Inl (ErrorWith ''schema registry unavailable''), generated = Inr [],
      corrected = (\<lambda>n q e. Inr q), database = (\<lambda>n q. Inr \<lparr>rowsField = None\<rparr>),
      thesys = None, supabase = (\<lambda>q. [])\<rparr>"

text \<open>
  C9 as stated fails: when a collaborator throws, the response has \<open>success = false\<close> and
  carries neither the query nor the intent.
\<close>

theorem failure_without_query_counterexample:
  "success (fst (ask wBroken ''doctors in Pune'')) = Some False \<and>
   generated_sql (fst (ask wBroken ''doctors in Pune'')) = None \<and>
   extracted_intent (fst (ask wBroken ''doctors in Pune'')) = None"
  by code_simp

lemma pipelineError_fields:
  "success (pipelineError e) = Some False"
  "generated_sql (pipelineError e) = None"
  "extracted_intent (pipelineError e) = None"
  "status (pipelineError e) = 429 \<or> status (pipelineError e) = 500"
  by (simp_all add: pipelineError_def emptyResponse_def)

text \<open>
  C9, amended.  A response of \<open>/api/ask\<close> with \<open>success = false\<close> is either the 422 response
  after the correction loop, which carries the extracted intent and the last attempted query
  (the text the validator returned for the last query it was given), or the 429 or 500
  response of the exception handler, which carries neither.
\<close>

theorem failure_response_fields:
  "success (fst (ask w question)) = Some False \<Longrightarrow>
     (status (fst (ask w question)) = 422 \<and>
      (\<exists>ctx xs. prelude w = Inr (ctx, xs) \<and>
         extracted_intent (fst (ask w question)) = Some xs \<and>
         validatedLog (snd (ask w question)) \<noteq> [] \<and>
         generated_sql (fst (ask w question))
           = Some (sql (validateAndFixSql (last (validatedLog (snd (ask w question)))) xs))))
     \<or> ((status (fst (ask w question)) = 429 \<or> status (fst (ask w question)) = 500) \<and>
         generated_sql (fst (ask w question)) = None \<and>
         extracted_intent (fst (ask w question)) = None)"
proof -
  assume fail: "success (fst (ask w question)) = Some False"
  have inv: "lastValidated xs (q', r, tr)"
    if "correctionLoop w xs (firstAttempt w xs q) = Inr (q', r, tr)" for xs q q' r tr
    using correctionLoop_lastValidated [OF firstAttempt_lastValidated that] .
  show ?thesis
  proof (cases "question = []")
    case True
    with fail show ?thesis by (simp add: ask_def emptyResponse_def)
  next
    case nonempty: False
    show ?thesis
    proof (cases "prelude w")
      case (Inl e)
      with nonempty show ?thesis
        by (simp add: ask_def pipelineError_fields)
    next
      case (Inr p)
      obtain ctx xs where p: "p = (ctx, xs)" by (cases p)
      show ?thesis
      proof (cases "generateMatrimonialSQL w xs")
        case (Inl e)
        with nonempty Inr p show ?thesis
          by (simp add: ask_def pipelineError_fields)
      next
        case q0: (Inr q0)
        show ?thesis
        proof (cases "correctionLoop w xs (firstAttempt w xs q0)")
          case (Inl et)
          obtain e tr where "et = (e, tr)" by (cases et)
          with Inl nonempty Inr p q0 show ?thesis
            by (simp add: ask_def pipelineError_fields)
        next
          case loop: (Inr st)
          obtain q r tr where st: "st = (q, r, tr)" by (cases st)
          have lv: "lastValidated xs (q, r, tr)"
            using inv loop st by simp
          show ?thesis
          proof (cases "hasError r")
            case True
            with nonempty Inr p q0 loop st lv show ?thesis
              by (simp add: ask_def failureResponse_def emptyResponse_def lastValidated_def)
          next
            case False
            with nonempty Inr p q0 loop st fail show ?thesis
              by (auto simp: ask_def successResponse_def emptyResponse_def pipelineError_fields
                       split: option.splits sum.splits)
          qed
        qed
      qed
    qed
  qed
qed

text \<open>A world whose database refuses every query.\<close>

definition wFailing :: "unit world" where
  "wFailing =
     \<lparr>prelude = Inr (''[]'', []), generated = Inr ''SELECT 1 FROM profiles p'',
      corrected = (\<lambda>n q e. Inr q), database = (\<lambda>n q. Inl (ErrorWith ''connection refused'')),
      thesys = None, supabase = (\<lambda>q. [])\<rparr>"

theorem failure_response_fields_witness:
  "success (fst (ask wFailing ''anyone'')) = Some False \<and>
   status (fst (ask wFailing ''anyone'')) = 422 \<and>
   generated_sql (fst (ask wFailing ''anyone'')) = Some ''SELECT 1 FROM profiles p'' \<and>
   extracted_intent (fst (ask wFailing ''anyone'')) = Some []"
proof -
  have h: "success (fst (ask wFailing ''anyone'')) = Some False"
    by code_simp
  have st: "status (fst (ask wFailing ''anyone'')) = 422"
    by code_simp
  have lg: "validatedLog (snd (ask wFailing ''anyone''))
              = [''SELECT 1 FROM profiles p'', ''SELECT 1 FROM profiles p'', ''SELECT 1 FROM profiles p'']"
    by code_simp
  have v: "sql (validateAndFixSql ''SELECT 1 FROM profiles p'' []) = ''SELECT 1 FROM profiles p''"
    by code_simp
  have p: "prelude wFailing = Inr (''[]'', [])"
    by (simp add: wFailing_def)
  from failure_response_fields [OF h] st lg v p h show ?thesis
    by simp
qed

subsection \<open>The read-only guard\<close>

text \<open>A world with no intent whose text model writes a \<open>DELETE\<close> statement.\<close>

definition wDelete :: "unit world" where
  "wDelete =
     \<lparr>prelude = Inr (''[]'', []), generated = Inr ''DELETE FROM profiles'',
      corrected = (\<lambda>n q e. Inr q), database = (\<lambda>n q. Inr \<lparr>rowsField = Some []\<rparr>),
      thesys = None, supabase = (\<lambda>q. [])\<rparr>"

text \<open>
  C5.  On \<open>/api/ask\<close> nothing checks the leading verb: the statement written by the text
  model passes the validator, which only looks for \<open>FROM profiles\<close>, and is executed.
\<close>

theorem ask_executes_delete:
  "executedLog (snd (ask wDelete ''remove all profiles'')) = [''DELETE FROM profiles p ''] \<and>
   test True reSelectGuard ''DELETE FROM profiles p '' = False \<and>
   success (fst (ask wDelete ''remove all profiles'')) = Some True"
  by code_simp

text \<open>The raw-query endpoint does have the guard.\<close>

lemma executeRaw_select_only:
  "q \<in> set (snd (executeRaw db rawSql)) \<Longrightarrow> test True reSelectGuard q"
  by (auto simp: executeRaw_def Let_def split: if_splits)

subsection \<open>The rule-based extractor\<close>

lemma rule_attributes:
  "attribute ` set (professionRule low) \<subseteq> {''profession''}"
  "attribute ` set (nativeRule low q) \<subseteq> {''native_place''}"
  "attribute ` set (cityRule q) \<subseteq> {''city''}"
  "attribute ` set (incomeRule low) \<subseteq> {''income''}"
  "attribute ` set (religionRule low) \<subseteq> {''religion''}"
  "attribute ` set (casteRule low) \<subseteq> {''caste''}"
  "attribute ` set (languageRule low q) \<subseteq> {''mother_tongue''}"
  "attribute ` set (nameRule q) \<subseteq> {''first_name''}"
  "attribute ` set (ageRule low) \<subseteq> {''age''}"
  by (auto simp: professionRule_def nativeRule_def cityRule_def incomeRule_def religionRule_def
        casteRule_def languageRule_def nameRule_def ageRule_def pushIf_def mk_def Let_def)

text \<open>
  C8.  \<open>fallbackExtractIntent\<close> is total (it has no raising path), no result holds both a
  \<open>native_place\<close> and a \<open>city\<close> intent, and the empty list is a possible result.
\<close>

theorem fallback_total_exclusive:
  "\<not> (''native_place'' \<in> attribute ` set (fallbackExtractIntent question) \<and>
      ''city'' \<in> attribute ` set (fallbackExtractIntent question)) \<and>
   fallbackExtractIntent [] = []"
proof
  let ?q = "trim question"
  let ?low = "toLowerCase ?q"
  show "\<not> (''native_place'' \<in> attribute ` set (fallbackExtractIntent question) \<and>
      ''city'' \<in> attribute ` set (fallbackExtractIntent question))"
    using rule_attributes(1) [of ?low] rule_attributes(2) [of ?low ?q] rule_attributes(3) [of ?q]
      rule_attributes(4) [of ?low] rule_attributes(5) [of ?low] rule_attributes(6) [of ?low]
      rule_attributes(7) [of ?low ?q] rule_attributes(8) [of ?q] rule_attributes(9) [of ?low]
    by (auto simp: fallbackExtractIntent_def Let_def list_ex_iff)
  show "fallbackExtractIntent [] = []"
    by code_simp
qed


subsection \<open>Validating twice\<close>

















































subsection \<open>Placeholders\<close>


















subsection \<open>The builder and the attributes without a mapping\<close>

text \<open>An attribute is mapped when it is a key of \<open>INTENT_TO_SQL\<close>; an intent is mapped when
  its normalized attribute is.  \<open>bareQuery\<close> is the query the builder writes when no intent
  is mapped.\<close>

definition isMapped :: "string \<Rightarrow> bool" where
  "isMapped a = (a \<in> set (map fst INTENT_TO_SQL))"

definition mappedIntent :: "intent \<Rightarrow> bool" where
  "mappedIntent i = isMapped (normalizeIntentAttribute (attribute i))"

definition bareQuery :: string where
  "bareQuery = ''SELECT p.profile_id, p.first_name, p.last_name\<newline>FROM profiles p\<newline>\<newline>LIMIT 50''"

lemma patterns_nonempty:
  "list_all (\<lambda>k. case getSqlPattern k of Inr p \<Rightarrow> p \<noteq> [] | Inl e \<Rightarrow> False) (map fst INTENT_TO_SQL)"
  by code_simp

lemma tables_keys:
  "list_all (\<lambda>k. case lookupIn INTENT_TABLES k of Own ts \<Rightarrow> True | Inherited \<Rightarrow> False | Undefined \<Rightarrow> False)
     (map fst INTENT_TO_SQL)"
  "list_all (\<lambda>k. k \<in> set (map fst INTENT_TO_SQL)) (map fst INTENT_TABLES)"
  by code_simp+

lemma mapped_pattern: "isMapped a \<Longrightarrow> \<exists>p. getSqlPattern a = Inr p \<and> p \<noteq> []"
proof -
  assume "isMapped a"
  then have "case getSqlPattern a of Inr p \<Rightarrow> p \<noteq> [] | Inl e \<Rightarrow> False"
    using patterns_nonempty by (auto simp: isMapped_def list_all_iff)
  then show ?thesis by (cases "getSqlPattern a") auto
qed

lemma mapped_tables: "isMapped a \<Longrightarrow> \<exists>ts. lookupIn INTENT_TABLES a = Own ts"
proof -
  assume "isMapped a"
  then have "case lookupIn INTENT_TABLES a of Own ts \<Rightarrow> True | Inherited \<Rightarrow> False | Undefined \<Rightarrow> False"
    using tables_keys(1) by (auto simp: isMapped_def list_all_iff)
  then show ?thesis by (cases "lookupIn INTENT_TABLES a") auto
qed

lemma unmapped_pattern: "\<not> isMapped a \<Longrightarrow> getSqlPattern a = Inr p \<Longrightarrow> p = []"
  by (auto simp: isMapped_def getSqlPattern_def lookupIn_def map_of_eq_None_iff [THEN iffD2]
           split: option.splits if_splits)

lemma unmapped_tables: "\<not> isMapped a \<Longrightarrow> lookupIn INTENT_TABLES a \<noteq> Inherited \<Longrightarrow> lookupIn INTENT_TABLES a = Undefined"
proof -
  assume u: "\<not> isMapped a" and ni: "lookupIn INTENT_TABLES a \<noteq> Inherited"
  have "a \<notin> set (map fst INTENT_TABLES)"
    using tables_keys(2) u by (auto simp: isMapped_def list_all_iff)
  then have "map_of INTENT_TABLES a = None"
    by (simp add: map_of_eq_None_iff)
  with ni show ?thesis by (simp add: lookupIn_def split: if_splits)
qed

text \<open>Both loops of the builder see only the intents with a mapped attribute.\<close>

definition patternOf :: "string \<Rightarrow> string" where
  "patternOf a = (case getSqlPattern a of Inr p \<Rightarrow> p | Inl e \<Rightarrow> [])"

definition conditionOf :: "intent \<Rightarrow> string" where
  "conditionOf i = wrapOr (renderCondition i (patternOf (attribute i)))"

lemma conditionsFor_mapped:
  "conditionsFor ys = Inr cs \<Longrightarrow> cs = map conditionOf (filter (\<lambda>i. isMapped (attribute i)) ys)"
proof (induction ys arbitrary: cs)
  case Nil
  then show ?case by simp
next
  case (Cons i ys)
  from Cons.prems obtain expr cs' where e: "getSqlPattern (attribute i) = Inr expr"
    and r: "conditionsFor ys = Inr cs'"
    and c: "cs = (if expr = [] then cs' else wrapOr (renderCondition i expr) # cs')"
    by (auto split: sum.splits)
  have ih: "cs' = map conditionOf (filter (\<lambda>i. isMapped (attribute i)) ys)"
    using Cons.IH r by simp
  show ?case
  proof (cases "isMapped (attribute i)")
    case True
    with mapped_pattern e have "expr \<noteq> []" by fastforce
    with True c ih e show ?thesis by (simp add: conditionOf_def patternOf_def)
  next
    case False
    with unmapped_pattern e have "expr = []" by blast
    with False c ih show ?thesis by simp
  qed
qed

lemma conditionsFor_filter:
  "conditionsFor ys = Inr cs \<Longrightarrow> conditionsFor (filter (\<lambda>i. isMapped (attribute i)) ys) = Inr cs"
proof (induction ys arbitrary: cs)
  case Nil
  then show ?case by simp
next
  case (Cons i ys)
  from Cons.prems obtain expr cs' where e: "getSqlPattern (attribute i) = Inr expr"
    and r: "conditionsFor ys = Inr cs'"
    and c: "cs = (if expr = [] then cs' else wrapOr (renderCondition i expr) # cs')"
    by (auto split: sum.splits)
  show ?case
  proof (cases "isMapped (attribute i)")
    case True
    with e c r Cons.IH [OF r] show ?thesis by simp
  next
    case False
    with unmapped_pattern e have "expr = []" by blast
    with False c r Cons.IH [OF r] show ?thesis by simp
  qed
qed

lemma collectJoins_filter:
  "collectJoins ys = Inr js \<Longrightarrow> collectJoins (filter (\<lambda>i. isMapped (attribute i)) ys) = Inr js"
proof (induction ys arbitrary: js)
  case Nil
  then show ?case by simp
next
  case (Cons i ys)
  show ?case
  proof (cases "isMapped (attribute i)")
    case True
    with Cons show ?thesis by (auto split: lookup.splits sum.splits)
  next
    case False
    from Cons.prems have "lookupIn INTENT_TABLES (attribute i) \<noteq> Inherited"
      by (auto split: lookup.splits)
    with False have "lookupIn INTENT_TABLES (attribute i) = Undefined"
      by (rule unmapped_tables)
    with False Cons show ?thesis by simp
  qed
qed

text \<open>Without an inherited name both loops succeed.\<close>

lemma inherited_lookup:
  "a \<notin> set objectPrototypeKeys \<Longrightarrow> lookupIn t a \<noteq> Inherited"
  by (simp add: lookupIn_def split: option.splits)

lemma collectJoins_safe:
  "list_all (\<lambda>i. attribute i \<notin> set objectPrototypeKeys) ys \<Longrightarrow> \<exists>js. collectJoins ys = Inr js"
proof (induction ys)
  case Nil
  then show ?case by simp
next
  case (Cons i ys)
  then obtain js where "collectJoins ys = Inr js" by auto
  moreover have "lookupIn INTENT_TABLES (attribute i) \<noteq> Inherited"
    using Cons.prems by (simp add: inherited_lookup)
  ultimately show ?case by (cases "lookupIn INTENT_TABLES (attribute i)") auto
qed

lemma conditionsFor_safe:
  "list_all (\<lambda>i. attribute i \<notin> set objectPrototypeKeys) ys \<Longrightarrow> \<exists>cs. conditionsFor ys = Inr cs"
proof (induction ys)
  case Nil
  then show ?case by simp
next
  case (Cons i ys)
  then obtain cs where "conditionsFor ys = Inr cs" by auto
  moreover have "lookupIn INTENT_TO_SQL (attribute i) \<noteq> Inherited"
    using Cons.prems by (simp add: inherited_lookup)
  then have "\<exists>p. getSqlPattern (attribute i) = Inr p"
    by (cases "lookupIn INTENT_TO_SQL (attribute i)") (auto simp: getSqlPattern_def)
  ultimately show ?case by auto
qed

lemma selectColumns_filter:
  "selectColumnsForIntent (map attribute (filter (\<lambda>i. isMapped (attribute i)) ys)) js
     = selectColumnsForIntent (map attribute ys) js"
proof -
  have m: "isMapped ''city''" "isMapped ''state''" "isMapped ''country''" "isMapped ''profession''"
    "isMapped ''income''" "isMapped ''mother_tongue''" "isMapped ''gender''" "isMapped ''marital_status''"
    by (simp_all add: isMapped_def INTENT_TO_SQL_def)
  have "(a \<in> set (map attribute (filter (\<lambda>i. isMapped (attribute i)) ys))) = (a \<in> set (map attribute ys))"
    if "isMapped a" for a
    using that by auto
  with m show ?thesis
    unfolding selectColumnsForIntent_def by presburger
qed







lemma normalizeAll_filter:
  "normalizeAll (filter mappedIntent xs) = filter (\<lambda>i. isMapped (attribute i)) (normalizeAll xs)"
  by (induction xs) (simp_all add: normalizeAll_def mappedIntent_def)

lemma normalizeAll_safe:
  "list_all (\<lambda>i. normalizeIntentAttribute (attribute i) \<notin> set objectPrototypeKeys) xs \<Longrightarrow>
   list_all (\<lambda>i. attribute i \<notin> set objectPrototypeKeys) (normalizeAll xs)"
  by (induction xs) (simp_all add: normalizeAll_def)

lemma assemble_nonempty: "assemble cols js cs \<noteq> []"
  by (simp add: assemble_def)

text \<open>
  For a non-empty intent none of whose normalized attributes is a name inherited from
  \<open>Object.prototype\<close>, the builder returns a query, never a signal: the intents whose
  attribute has no mapping are passed over, so the query is the one built from the mapped
  intents alone.
\<close>

lemma unmapped_passed_over:
  assumes "list_all (\<lambda>i. normalizeIntentAttribute (attribute i) \<notin> set objectPrototypeKeys) xs"
    and "xs \<noteq> []"
  shows "(\<exists>q. buildSqlFromIntent xs = Inr q \<and> q \<noteq> []) \<and>
         buildSqlFromIntent xs =
           (if filter mappedIntent xs = [] then Inr bareQuery
            else buildSqlFromIntent (filter mappedIntent xs)) \<and>
         buildSqlFromIntent [] = Inr []"
proof -
  let ?ys = "normalizeAll xs"
  let ?fs = "filter (\<lambda>i. isMapped (attribute i)) ?ys"
  have ne: "?ys \<noteq> []"
    using assms(2) by (simp add: normalizeAll_def)
  have safe: "list_all (\<lambda>i. attribute i \<notin> set objectPrototypeKeys) ?ys"
    using assms(1) by (rule normalizeAll_safe)
  obtain js where js: "collectJoins ?ys = Inr js"
    using collectJoins_safe [OF safe] by blast
  obtain cs where cs: "conditionsFor ?ys = Inr cs"
    using conditionsFor_safe [OF safe] by blast
  have built: "buildSqlFromIntent xs
                 = Inr (assemble (selectColumnsForIntent (map attribute ?ys) js) (joinLinesFor js) cs)"
    using ne js cs by (simp add: buildSqlFromIntent_def Let_def)
  then have complete: "\<exists>q. buildSqlFromIntent xs = Inr q \<and> q \<noteq> []"
    by (simp add: assemble_nonempty)
  have fs: "normalizeAll (filter mappedIntent xs) = ?fs"
    by (rule normalizeAll_filter)
  have same: "buildSqlFromIntent xs =
           (if filter mappedIntent xs = [] then Inr bareQuery
            else buildSqlFromIntent (filter mappedIntent xs))"
  proof (cases "filter mappedIntent xs = []")
    case True
    then have e: "?fs = []"
      using fs by (simp add: normalizeAll_def)
    have "cs = []"
      using conditionsFor_mapped [OF cs] e by simp
    moreover have "js = []"
      using collectJoins_filter [OF js] e by simp
    moreover have "selectColumnsForIntent (map attribute ?ys) [] = [''p.profile_id'', ''p.first_name'', ''p.last_name'']"
      using selectColumns_filter [of ?ys "[]"] e by (simp add: selectColumnsForIntent_def)
    ultimately show ?thesis
      using built True
      by (simp add: assemble_def joinLinesFor_def whereClauseOf_def bareQuery_def)
  next
    case False
    then have nf: "?fs \<noteq> []"
      using fs by (auto simp: normalizeAll_def)
    have "buildSqlFromIntent (filter mappedIntent xs)
            = Inr (assemble (selectColumnsForIntent (map attribute ?fs) js) (joinLinesFor js) cs)"
      using nf fs collectJoins_filter [OF js] conditionsFor_filter [OF cs]
      by (simp add: buildSqlFromIntent_def Let_def)
    with built False show ?thesis
      by (simp add: selectColumns_filter)
  qed
  have empty: "buildSqlFromIntent [] = Inr []"
    by (simp add: buildSqlFromIntent_def normalizeAll_def)
  from complete same empty show ?thesis by blast
qed

text \<open>
  C6.  The extraction prompt of the planner asks for the attribute \<open>manglik\<close>, which has no
  entry in \<open>INTENT_TO_SQL\<close>.  For the intent "female, manglik" the builder gives no signal: it
  returns a complete query with one condition for the two intents, the query it builds for
  "female" alone, and the validator accepts that query as it is.  The builder's contract
  (one condition per intent) is broken without notice.
\<close>

definition femaleManglik :: "intent list" where
  "femaleManglik = [mk ''gender'' ''female'', mk ''manglik'' ''yes'']"

definition femaleQuery :: string where
  "femaleQuery = ''SELECT p.profile_id, p.first_name, p.last_name, p.gender\<newline>FROM profiles p\<newline> WHERE (LOWER(p.gender) = LOWER('female') OR p.gender ILIKE '%female%')\<newline>LIMIT 50''"

theorem unmapped_filter_silently_omitted:
  "lookupIn INTENT_TO_SQL (normalizeIntentAttribute ''manglik'') = Undefined \<and>
   buildSqlFromIntent femaleManglik = Inr femaleQuery \<and>
   buildSqlFromIntent [mk ''gender'' ''female''] = Inr femaleQuery \<and>
   conditionsFor (normalizeAll femaleManglik)
     = Inr [''(LOWER(p.gender) = LOWER('female') OR p.gender ILIKE '%female%')''] \<and>
   \<not> includesStr femaleQuery ''manglik'' \<and>
   validateAndFixSql femaleQuery femaleManglik
     = \<lparr>valid = True, sql = femaleQuery, error = None, fixed = None\<rparr>"
  by code_simp

subsection \<open>The builder's output under the validator\<close>

text \<open>Two scenarios of the specification, a gender and an age range, are accepted with
  no fix.\<close>

definition genderFemaleQuery :: string where
  "genderFemaleQuery = ''SELECT p.profile_id, p.first_name, p.last_name, p.gender\<newline>FROM profiles p\<newline> WHERE (LOWER(p.gender) = LOWER('female') OR p.gender ILIKE '%female%')\<newline>LIMIT 50''"

definition ageRangeQuery :: string where
  "ageRangeQuery = ''SELECT p.profile_id, p.first_name, p.last_name\<newline>FROM profiles p\<newline> WHERE (EXTRACT(YEAR FROM AGE(CURRENT_DATE, p.date_of_birth)) BETWEEN 25 AND 30)\<newline>LIMIT 50''"

lemma built_queries_accepted_examples:
  "buildSqlFromIntent [mk ''gender'' ''female''] = Inr genderFemaleQuery"
  "validateAndFixSql genderFemaleQuery [mk ''gender'' ''female'']
     = \<lparr>valid = True, sql = genderFemaleQuery, error = None, fixed = None\<rparr>"
  "buildSqlFromIntent [mk ''age'' ''25-30''] = Inr ageRangeQuery"
  "validateAndFixSql ageRangeQuery [mk ''age'' ''25-30'']
     = \<lparr>valid = True, sql = ageRangeQuery, error = None, fixed = None\<rparr>"
  by code_simp+

definition nehaIntent :: "intent list" where
  "nehaIntent = [mk ''first_name'' ''Neha'']"

definition nehaQuery :: string where
  "nehaQuery = ''SELECT p.profile_id, p.first_name, p.last_name\<newline>FROM profiles p\<newline> WHERE (LOWER(p.first_name) = LOWER('Neha') OR LOWER(p.last_name) = LOWER('Neha'))\<newline>LIMIT 50''"

text \<open>
  C3.  The query built for an intent on \<open>first_name\<close> ends in the two closing parentheses
  of \<open>LOWER('Neha'))\<close>; the validator takes the second for an extra parenthesis before
  \<open>LIMIT\<close>, removes it, and reports a fix.  The query it returns has an unclosed parenthesis.
\<close>

theorem built_name_query_is_fixed:
  "buildSqlFromIntent nehaIntent = Inr nehaQuery \<and>
   validateAndFixSql nehaQuery nehaIntent =
     \<lparr>valid = True,
      sql = ''SELECT p.profile_id, p.first_name, p.last_name\<newline>FROM profiles p\<newline> WHERE (LOWER(p.first_name) = LOWER('Neha') OR LOWER(p.last_name) = LOWER('Neha') LIMIT 50'',
      error = None, fixed = Some True\<rparr>"
  by code_simp

end
